theory Spec2Isabelle
  imports Main "HOL-Library.AList" "HOL-Library.Sublist"
begin

section \<open>JavaScript values and objects, as far as the worker observes them\<close>

text \<open>
  The values of \<open>SLUG_TO_PAGE\<close> come out of \<open>JSON.parse\<close>, so a page id may be any JSON
  value. The worker observes such a value in three ways only: \<open>typeof pageId === 'string'\<close>,
  its truthiness (\<open>if (pageId)\<close>, \<open>pageId && ...\<close>) and its string conversion inside a
  template literal (\<open>`${pageId}`\<close>). A string is kept as it is; a value of any other type is
  kept as these two observations: \<open>JOther t r\<close> is a non-string value with truthiness \<open>t\<close>
  whose conversion gives \<open>r\<close>: \<open>Some\<close> of a text, or \<open>None\<close> when the conversion throws a
  \<open>TypeError\<close> (\<open>null\<close> is \<open>JOther False (Some ''null'')\<close>, the number \<open>0\<close> is
  \<open>JOther False (Some ''0'')\<close>, the empty array \<open>[]\<close> is \<open>JOther True (Some [])\<close>, an
  object \<open>{}\<close> is \<open>JOther True (Some ''[object Object]'')\<close>, and an object with an own
  property \<open>toString\<close>, which is never a function in a parsed document, is
  \<open>JOther True None\<close>).
\<close>

datatype jsval = JString string | JOther bool "string option"

fun ToBoolean :: "jsval \<Rightarrow> bool" where
  "ToBoolean (JString s) = (s \<noteq> [])"
| "ToBoolean (JOther t r) = t"

text \<open>\<open>typeof v === 'string'\<close>\<close>

fun typeof_string :: "jsval \<Rightarrow> bool" where
  "typeof_string (JString s) = True"
| "typeof_string (JOther t r) = False"

text \<open>The conversion to a string inside a template literal; \<open>None\<close> is a thrown \<open>TypeError\<close>.\<close>

fun ToString :: "jsval \<Rightarrow> string option" where
  "ToString (JString s) = Some s"
| "ToString (JOther t r) = r"

text \<open>
  An ordinary object is the list of its own properties in the order of their creation, each
  key once. \<open>JSON.parse\<close> creates the properties in the order of the members of the text, so
  for a parsed configuration this is the declaration order.
\<close>

type_synonym 'v js_object = "(string \<times> 'v) list"

definition wf_object :: "'v js_object \<Rightarrow> bool" where
  "wf_object obj \<longleftrightarrow> distinct (map fst obj)"

text \<open>
  A property key is an array index when it is the canonical decimal text of an integer in
  \<open>0 .. 2^32 - 2\<close>. The own property keys of an object are enumerated with the array indices
  first, in ascending numeric order, and the other keys after them in creation order; this is
  the order \<open>Object.entries\<close> follows.
\<close>

definition is_digit :: "char \<Rightarrow> bool" where
  "is_digit c \<longleftrightarrow> c \<in> set ''0123456789''"

definition digit_value :: "char \<Rightarrow> nat" where
  "digit_value c = of_char c - 48"

definition decimal_value :: "string \<Rightarrow> nat" where
  "decimal_value s = foldl (\<lambda>n c. 10 * n + digit_value c) 0 s"

definition is_array_index :: "string \<Rightarrow> bool" where
  "is_array_index s \<longleftrightarrow>
     s \<noteq> [] \<and> list_all is_digit s \<and> (s = ''0'' \<or> hd s \<noteq> CHR ''0'')
     \<and> decimal_value s < 2 ^ 32 - 1"

definition OwnPropertyKeys :: "'v js_object \<Rightarrow> string list" where
  "OwnPropertyKeys obj =
     sort_key decimal_value (filter is_array_index (map fst obj))
     @ filter (\<lambda>k. \<not> is_array_index k) (map fst obj)"

definition Object_entries :: "'v js_object \<Rightarrow> (string \<times> 'v) list" where
  "Object_entries obj =
     concat (map (\<lambda>k. case map_of obj k of None \<Rightarrow> [] | Some v \<Rightarrow> [(k, v)])
                 (OwnPropertyKeys obj))"

text \<open>
  \<open>obj[key]\<close> reads an own property and otherwise follows the prototype chain to
  \<open>Object.prototype\<close>, whose properties are functions (truthy, converting to their source
  text) and the accessor \<open>__proto__\<close>, which yields \<open>Object.prototype\<close> itself.
\<close>

definition Object_prototype :: "string \<Rightarrow> jsval option" where
  "Object_prototype key =
     (if key = ''constructor''
      then Some (JOther True (Some ''function Object() { [native code] }''))
      else if key = ''__proto__'' then Some (JOther True (Some ''[object Object]''))
      else if key \<in> set [''__defineGetter__'', ''__defineSetter__'', ''hasOwnProperty'',
                ''__lookupGetter__'', ''__lookupSetter__'', ''isPrototypeOf'',
                ''propertyIsEnumerable'', ''toString'', ''valueOf'', ''toLocaleString'']
      then Some (JOther True (Some (''function '' @ key @ ''() { [native code] }'')))
      else None)"

definition js_get :: "jsval js_object \<Rightarrow> string \<Rightarrow> jsval option" where
  "js_get obj key = (case map_of obj key of Some v \<Rightarrow> Some v | None \<Rightarrow> Object_prototype key)"

text \<open>
  \<open>obj[key] = value\<close> with a string value on an object created by \<open>{}\<close>: the key
  \<open>__proto__\<close> reaches the setter of \<open>Object.prototype\<close>, which ignores a value that is
  neither an object nor \<open>null\<close>; any other key overwrites the own property in place or creates
  it after the existing ones.
\<close>

definition js_set :: "string js_object \<Rightarrow> string \<Rightarrow> string \<Rightarrow> string js_object" where
  "js_set obj key v = (if key = ''__proto__'' then obj else AList.update key v obj)"

section \<open>Domain configuration\<close>

text \<open>
  The configuration object. \<open>SLUG_TO_PAGE\<close> is \<open>None\<close> when the property is missing or
  \<open>null\<close>, and \<open>SLUG_TO_PAGE_null\<close> tells the two apart (it is read in that case only);
  a \<open>SLUG_TO_PAGE\<close> that is there is an ordinary object, the map from slugs to page ids of
  the configuration format, with values of any kind.
  \<open>PAGE_TO_SLUG\<close>, \<open>slugs\<close> and \<open>pages\<close> are the derived fields; whatever a raw
  configuration holds there is overwritten by \<open>processConfigurationObject\<close>, and
  \<open>MY_DOMAIN\<close> by \<open>getDomainConfig\<close>.
\<close>

record config =
  MY_DOMAIN :: string
  SLUG_TO_PAGE :: "jsval js_object option"
  SLUG_TO_PAGE_null :: bool
  PAGE_TITLE :: "string option"
  PAGE_DESCRIPTION :: "string option"
  GOOGLE_FONT :: "string option"
  CUSTOM_SCRIPT :: "string option"
  PAGE_TO_SLUG :: "string js_object"
  slugs :: "string list"
  pages :: "string list"

text \<open>The body of the \<open>forEach\<close> callback of \<open>processConfigurationObject\<close>.\<close>

definition add_entry :: "config \<Rightarrow> string \<times> jsval \<Rightarrow> config" where
  "add_entry c e =
     (case e of (slug, pageId) \<Rightarrow>
        if ToBoolean pageId \<and> typeof_string pageId
        then (case pageId of
                JString p \<Rightarrow>
                  c\<lparr>slugs := slugs c @ [slug],
                    pages := pages c @ [p],
                    PAGE_TO_SLUG := js_set (PAGE_TO_SLUG c) p slug\<rparr>
              | JOther t r \<Rightarrow> c)
        else c)"

definition processConfigurationObject :: "config \<Rightarrow> config" where
  "processConfigurationObject c =
     foldl add_entry (c\<lparr>PAGE_TO_SLUG := [], slugs := [], pages := []\<rparr>)
       (Object_entries (case SLUG_TO_PAGE c of None \<Rightarrow> [] | Some m \<Rightarrow> m))"

text \<open>
  \<open>manualConfig\<close> is \<open>undefined\<close> in the deployed source, so the static branch of
  \<open>getDomainConfig\<close> is never taken; it is modelled all the same.
\<close>

definition manualConfig :: "config option" where
  "manualConfig = None"

definition MY_NOTION_USERNAME :: string where
  "MY_NOTION_USERNAME = ''faeton''"

text \<open>\<open>hostname.replace(/^www\./, '')\<close>\<close>

definition strip_www :: "string \<Rightarrow> string" where
  "strip_www h = (if prefix ''www.'' h then drop 4 h else h)"

section \<open>Requests, responses and the platform\<close>

record url =
  hostname :: string
  pathname :: string
  search :: string

type_synonym headers = "(string \<times> string) list"

text \<open>
  A request, inbound or outbound: the argument of \<open>fetchAndApply\<close>, and the pair of target
  and init object handed to \<open>fetch\<close>. A body of \<open>None\<close> is no body (\<open>null\<close> or an init
  object without \<open>body\<close>).
\<close>

record request =
  req_url :: url
  req_method :: string
  req_headers :: headers
  req_body :: "string option"

record response =
  status :: nat
  res_headers :: headers
  res_body :: "string option"

datatype kv_result = KV_throws | KV_value "string option"

text \<open>
  The result of \<open>JSON.parse\<close> on a stored document: a \<open>SyntaxError\<close>, the value \<open>null\<close>,
  a number, string or boolean (\<open>Parsed_primitive\<close>, with its truthiness), or an object. An
  array is an object that has none of the properties of a configuration.
\<close>

datatype parse_result = SyntaxError | Parsed_null | Parsed_primitive bool | Parsed_object config

datatype fetch_result = NetworkError | Upstream response

text \<open>
  What the runtime provides: the KV namespace \<open>DOMAINS_CONFIG\<close>, \<open>JSON.parse\<close>, \<open>fetch\<close>,
  the streaming \<open>HTMLRewriter\<close>, whose handlers (the enhancer classes) change the body of a
  response only, and the URL parser behind \<open>Response.redirect\<close>: \<open>URL_after_origin text\<close>
  is what the serialisation of \<open>https://<host>/<text>\<close> holds after \<open>https://<host>/\<close>
  (the parser's path, query and fragment states: \<open>a b\<close> becomes \<open>a%20b\<close>, a single dot
  disappears, a 32-hex-digit page id stays as it is).
\<close>

record platform =
  DOMAINS_CONFIG_get :: "string \<Rightarrow> kv_result"
  JSON_parse :: "string \<Rightarrow> parse_result"
  fetch :: "request \<Rightarrow> fetch_result"
  HTMLRewriter_transform :: "config \<Rightarrow> string option \<Rightarrow> string option"
  URL_after_origin :: "string \<Rightarrow> string"

text \<open>
  What the handlers read off a configuration that is a truthy number, string or boolean.
  The worker is not in strict mode, so writing a property of such a value does nothing and
  reading one gives \<open>undefined\<close>: \<open>MY_DOMAIN\<close> is only ever put into template literals
  and replacement texts, where \<open>undefined\<close> reads \<open>undefined\<close>; \<open>slugs\<close> falls back to
  the default \<open>[]\<close> of \<open>generateSitemap\<close>; and with \<open>SLUG_TO_PAGE\<close> missing the slug rule
  throws before \<open>pages\<close> is looked at.
\<close>

definition primitive_config :: config where
  "primitive_config =
     \<lparr>MY_DOMAIN = ''undefined'', SLUG_TO_PAGE = None, SLUG_TO_PAGE_null = False,
      PAGE_TITLE = None, PAGE_DESCRIPTION = None, GOOGLE_FONT = None, CUSTOM_SCRIPT = None,
      PAGE_TO_SLUG = [], slugs = [], pages = []\<rparr>"

text \<open>
  \<open>domainConfigCache\<close>, a \<open>Map\<close> from clean hostnames to what \<open>processConfigurationObject\<close>
  returned: a configuration, or a falsy number, string or boolean.
\<close>

datatype cached = Cached config | Cached_falsy

type_synonym cache = "string \<rightharpoonup> cached"

definition getDomainConfig :: "platform \<Rightarrow> cache \<Rightarrow> string \<Rightarrow> config option \<times> cache" where
  "getDomainConfig pf domainConfigCache host =
     (let cleanHostname = strip_www host in
      case manualConfig of
        Some mc \<Rightarrow>
          (Some (processConfigurationObject (mc\<lparr>MY_DOMAIN := cleanHostname\<rparr>)),
           domainConfigCache)
      | None \<Rightarrow>
         (case domainConfigCache cleanHostname of
            Some (Cached config) \<Rightarrow> (Some config, domainConfigCache)
          | Some Cached_falsy \<Rightarrow> (None, domainConfigCache)
          | None \<Rightarrow>
             (case DOMAINS_CONFIG_get pf cleanHostname of
                KV_throws \<Rightarrow> (None, domainConfigCache)
              | KV_value None \<Rightarrow> (None, domainConfigCache)
              | KV_value (Some domainConfigData) \<Rightarrow>
                  if domainConfigData = [] then (None, domainConfigCache)
                  else
                    (case JSON_parse pf domainConfigData of
                       SyntaxError \<Rightarrow> (None, domainConfigCache)
                     | Parsed_null \<Rightarrow> (None, domainConfigCache)
                     | Parsed_primitive t \<Rightarrow>
                         if t then (Some primitive_config,
                                    domainConfigCache(cleanHostname \<mapsto> Cached primitive_config))
                         else (None, domainConfigCache(cleanHostname \<mapsto> Cached_falsy))
                     | Parsed_object config \<Rightarrow>
                         (let processedConfig =
                                processConfigurationObject (config\<lparr>MY_DOMAIN := cleanHostname\<rparr>)
                          in (Some processedConfig,
                              domainConfigCache(cleanHostname \<mapsto> Cached processedConfig)))))))"

subsection \<open>Strings and headers\<close>

definition to_lower :: "char \<Rightarrow> char" where
  "to_lower c =
     (case map_of (zip ''ABCDEFGHIJKLMNOPQRSTUVWXYZ'' ''abcdefghijklmnopqrstuvwxyz'') c of
        Some l \<Rightarrow> l | None \<Rightarrow> c)"

text \<open>\<open>Array.prototype.join\<close>\<close>

fun join :: "string list \<Rightarrow> string \<Rightarrow> string" where
  "join [] sep = []"
| "join [x] sep = x"
| "join (x # y # ys) sep = x @ sep @ join (y # ys) sep"

text \<open>
  \<open>Headers.get\<close> and \<open>Headers.delete\<close> compare header names without regard to case;
  \<open>get\<close> joins the values of a name that occurs more than once.
\<close>

definition headers_get :: "headers \<Rightarrow> string \<Rightarrow> string option" where
  "headers_get hs name =
     (case map snd (filter (\<lambda>(k, v). map to_lower k = map to_lower name) hs) of
        [] \<Rightarrow> None
      | v # vs \<Rightarrow> Some (join (v # vs) '', ''))"

definition headers_delete :: "headers \<Rightarrow> string \<Rightarrow> headers" where
  "headers_delete hs name = filter (\<lambda>(k, v). map to_lower k \<noteq> map to_lower name) hs"

text \<open>Truthiness of what \<open>Headers.get\<close> returns: \<open>null\<close> and the empty string are falsy.\<close>

definition truthy :: "string option \<Rightarrow> bool" where
  "truthy x = (case x of None \<Rightarrow> False | Some s \<Rightarrow> s \<noteq> [])"

text \<open>\<open>String.prototype.includes\<close>\<close>

fun includes_str :: "string \<Rightarrow> string \<Rightarrow> bool" where
  "includes_str [] needle = (needle = [])"
| "includes_str (c # cs) needle = (prefix needle (c # cs) \<or> includes_str cs needle)"

text \<open>
  \<open>String.prototype.replace\<close> with a global regular expression that matches one fixed,
  non-empty text, and a replacement free of \<open>$\<close> patterns.
\<close>

fun replace_all :: "string \<Rightarrow> string \<Rightarrow> string \<Rightarrow> string" where
  "replace_all pat rep [] = []"
| "replace_all pat rep (c # cs) =
     (if pat \<noteq> [] \<and> prefix pat (c # cs)
      then rep @ replace_all pat rep (drop (length pat - 1) cs)
      else c # replace_all pat rep cs)"

text \<open>\<open>/^[0-9a-f]{32}$/i\<close>\<close>

definition is_hex_digit :: "char \<Rightarrow> bool" where
  "is_hex_digit c \<longleftrightarrow> c \<in> set ''0123456789abcdefABCDEF''"

definition notionPageIdPattern_test :: "string \<Rightarrow> bool" where
  "notionPageIdPattern_test s \<longleftrightarrow> length s = 32 \<and> list_all is_hex_digit s"

section \<open>Response handlers\<close>

definition plain_response :: "nat \<Rightarrow> headers \<Rightarrow> string \<Rightarrow> response" where
  "plain_response st hs content = \<lparr>status = st, res_headers = hs, res_body = Some content\<rparr>"

text \<open>
  \<open>Response.redirect(url, 301)\<close> parses \<open>url\<close> and answers with its serialisation in
  \<open>Location\<close>. \<open>Response_redirect\<close> takes the serialisation, which the handlers compute
  with \<open>redirect_target\<close>. \<open>MY_DOMAIN\<close> is the \<open>URL.hostname\<close> of the request without
  its \<open>www.\<close> prefix, a host name that the parser reads back as it is; so the text
  \<open>https://<MY_DOMAIN>/\<close> is its own serialisation, and \<open>https://<MY_DOMAIN>/<text>\<close>
  serialises to that origin followed by what the URL parser makes of \<open><text>\<close>.
\<close>

definition redirect_target :: "platform \<Rightarrow> string \<Rightarrow> string \<Rightarrow> string" where
  "redirect_target pf domain text =
     ''https://'' @ domain @ ''/'' @ (if text = [] then [] else URL_after_origin pf text)"

definition Response_redirect :: "string \<Rightarrow> nat \<Rightarrow> response" where
  "Response_redirect target st =
     \<lparr>status = st, res_headers = [(''Location'', target)], res_body = None\<rparr>"

definition corsHeaders :: headers where
  "corsHeaders =
     [(''Access-Control-Allow-Origin'', ''*''),
      (''Access-Control-Allow-Methods'', ''GET, HEAD, POST, PUT, OPTIONS''),
      (''Access-Control-Allow-Headers'', ''Content-Type, Authorization'')]"

definition handleCorsPreflightRequest :: "request \<Rightarrow> response" where
  "handleCorsPreflightRequest request =
     (let origin = headers_get (req_headers request) ''Origin'';
          method = headers_get (req_headers request) ''Access-Control-Request-Method'';
          hdrs = headers_get (req_headers request) ''Access-Control-Request-Headers''
      in if truthy origin \<and> truthy method \<and> truthy hdrs
         then \<lparr>status = 204, res_headers = corsHeaders, res_body = None\<rparr>
         else \<lparr>status = 405, res_headers = [(''Allow'', ''GET, HEAD, POST, PUT, OPTIONS'')],
               res_body = None\<rparr>)"

definition newline :: string where
  "newline = [CHR 0x0A]"

definition generateRobotsTxt :: "config \<Rightarrow> response" where
  "generateRobotsTxt config =
     plain_response 200 [(''Content-Type'', ''text/plain'')]
       (''User-agent: *'' @ newline @ ''Allow: /'' @ newline @ newline
        @ ''Sitemap: https://'' @ MY_DOMAIN config @ ''/sitemap.xml'')"

text \<open>The callback of \<open>map\<close> in \<open>generateSitemap\<close>: the \<open><url>\<close> element of one slug.\<close>

definition sitemap_url :: "string \<Rightarrow> string \<Rightarrow> string" where
  "sitemap_url domain slug =
     (let loc = (if slug = [] then ''https://'' @ domain @ ''/''
                 else ''https://'' @ domain @ ''/'' @ slug)
      in ''<url><loc>'' @ loc
         @ ''</loc><changefreq>weekly</changefreq><priority>0.8</priority></url>'')"

definition sitemap_head :: string where
  \<open>sitemap_head =
     ''<?xml version="1.0" encoding="UTF-8"?>'' @ newline
     @ ''<urlset xmlns="http://www.sitemaps.org/schemas/sitemap/0.9">'' @ newline\<close>

definition sitemap_tail :: string where
  "sitemap_tail = newline @ ''</urlset>''"

text \<open>
  \<open>generateSitemap({ MY_DOMAIN, slugs = [] })\<close>: the argument \<open>slugs\<close> may be missing
  (\<open>None\<close>, replaced by the default \<open>[]\<close>) and an element may be \<open>undefined\<close> (\<open>None\<close>,
  dropped by the \<open>filter\<close>).
\<close>

definition generateSitemap :: "string \<Rightarrow> string option list option \<Rightarrow> string" where
  "generateSitemap domain slugs_arg =
     (let slugs_list = (case slugs_arg of None \<Rightarrow> [] | Some l \<Rightarrow> l);
          urls = map (sitemap_url domain)
                   (concat (map (\<lambda>slug. case slug of None \<Rightarrow> [] | Some s \<Rightarrow> [s]) slugs_list))
      in sitemap_head @ join urls newline @ sitemap_tail)"

definition generateSitemapResponse :: "config \<Rightarrow> response" where
  "generateSitemapResponse config =
     plain_response 200 [(''Content-Type'', ''application/xml'')]
       (generateSitemap (MY_DOMAIN config) (Some (map Some (slugs config))))"

definition ok :: "response \<Rightarrow> bool" where
  "ok r \<longleftrightarrow> 200 \<le> status r \<and> status r \<le> 299"

text \<open>
  A handler that calls \<open>fetch\<close> returns its response together with the outbound requests it
  issued, in order.
\<close>

definition handleJavaScriptAssets ::
    "platform \<Rightarrow> url \<Rightarrow> config \<Rightarrow> response \<times> request list" where
  "handleJavaScriptAssets pf notionUrl config =
     (let outbound = \<lparr>req_url = notionUrl, req_method = ''GET'', req_headers = [],
                       req_body = None\<rparr>;
          failed = \<lparr>status = 500,
                     res_headers = [(''Content-Type'', ''text/plain;charset=UTF-8'')],
                     res_body = Some ''Failed to load JavaScript asset''\<rparr>
      in case fetch pf outbound of
           NetworkError \<Rightarrow> (failed, [outbound])
         | Upstream r \<Rightarrow>
             if \<not> ok r then (failed, [outbound])
             else
               (let text = (case res_body r of None \<Rightarrow> [] | Some b \<Rightarrow> b);
                    body = replace_all (MY_NOTION_USERNAME @ ''.notion.site'') (MY_DOMAIN config)
                             (replace_all ''notion.so'' (MY_DOMAIN config)
                               (replace_all ''www.notion.so'' (MY_DOMAIN config) text))
                in (\<lparr>status = status r,
                      res_headers = corsHeaders
                        @ [(''Content-Type'', ''application/javascript''),
                           (''Cache-Control'', ''public, max-age=31536000'')],
                      res_body = Some body\<rparr>, [outbound])))"

text \<open>The init object \<open>requestInit\<close> that \<open>handleApiRequests\<close> builds, with its target.\<close>

definition api_requestInit :: "url \<Rightarrow> request \<Rightarrow> request" where
  "api_requestInit notionUrl request =
     \<lparr>req_url = notionUrl,
      req_method = ''POST'',
      req_headers =
        [(''Content-Type'', ''application/json;charset=UTF-8''),
         (''User-Agent'', ''Mozilla/5.0 (Macintosh; Intel Mac OS X 10_15_7) AppleWebKit/537.36 (KHTML, like Gecko) Chrome/91.0.4472.124 Safari/537.36'')],
      req_body = (if \<not> includes_str (pathname notionUrl) ''/api/v3/getPublicPageData''
                  then req_body request else None)\<rparr>"

definition handleApiRequests ::
    "platform \<Rightarrow> url \<Rightarrow> request \<Rightarrow> response \<times> request list" where
  "handleApiRequests pf notionUrl request =
     (let requestInit = api_requestInit notionUrl request
      in case fetch pf requestInit of
           NetworkError \<Rightarrow>
             (\<lparr>status = 500,
               res_headers = [(''Content-Type'', ''text/plain;charset=UTF-8'')],
               res_body = Some ''API request failed''\<rparr>,
              [requestInit])
         | Upstream r \<Rightarrow>
             (\<lparr>status = status r,
               res_headers = corsHeaders @ [(''Content-Type'', ''application/json'')],
               res_body = res_body r\<rparr>, [requestInit]))"

text \<open>
  Reading a property of a \<open>SLUG_TO_PAGE\<close> that is missing or \<open>null\<close> throws a
  \<open>TypeError\<close>, and so does the template literal of the \<open>console.log\<close> line, which
  converts every truthy \<open>pageId\<close>, also that of the root slug. The messages are the runtime's.
\<close>

datatype js_error = TypeError string

definition handleSlugRedirection ::
    "platform \<Rightarrow> url \<Rightarrow> config \<Rightarrow> js_error + response option" where
  "handleSlugRedirection pf u config =
     (let slug = drop 1 (pathname u)
      in case SLUG_TO_PAGE config of
           None \<Rightarrow>
             Inl (TypeError (''Cannot read properties of ''
                             @ (if SLUG_TO_PAGE_null config then ''null'' else ''undefined'')
                             @ '' (reading '' @ [CHR 0x27] @ slug @ [CHR 0x27] @ '')''))
         | Some m \<Rightarrow>
             (case js_get m slug of
                None \<Rightarrow> Inr None
              | Some pageId \<Rightarrow>
                  if ToBoolean pageId
                  then (case ToString pageId of
                          None \<Rightarrow> Inl (TypeError ''Cannot convert object to primitive value'')
                        | Some text \<Rightarrow>
                            (let redirectUrl =
                                   (if slug = [] then redirect_target pf (MY_DOMAIN config) []
                                    else redirect_target pf (MY_DOMAIN config) text)
                             in Inr (Some (Response_redirect redirectUrl 301))))
                  else Inr None))"

definition handleUnknownPageRedirection :: "url \<Rightarrow> config \<Rightarrow> response option" where
  "handleUnknownPageRedirection u config =
     (let pathSegment = drop 1 (pathname u)
      in if notionPageIdPattern_test pathSegment \<and> pathSegment \<notin> set (pages config)
         then Some (Response_redirect (''https://'' @ MY_DOMAIN config @ ''/'') 301)
         else None)"

text \<open>
  \<open>applyHtmlEnhancements\<close> keeps status and headers of the response it is given and passes
  the body through the rewriter.
\<close>

definition applyHtmlEnhancements :: "platform \<Rightarrow> response \<Rightarrow> config \<Rightarrow> response" where
  "applyHtmlEnhancements pf r config =
     r\<lparr>res_body := HTMLRewriter_transform pf config (res_body r)\<rparr>"

definition handleHtmlContent ::
    "platform \<Rightarrow> url \<Rightarrow> request \<Rightarrow> config \<Rightarrow> response \<times> request list" where
  "handleHtmlContent pf notionUrl request config =
     (let outbound = \<lparr>req_url = notionUrl, req_method = req_method request,
                       req_headers = req_headers request, req_body = req_body request\<rparr>;
          failed = \<lparr>status = 500,
                     res_headers = [(''Content-Type'', ''text/plain;charset=UTF-8'')],
                     res_body = Some ''Failed to load page content''\<rparr>
      in case fetch pf outbound of
           NetworkError \<Rightarrow> (failed, [outbound])
         | Upstream r \<Rightarrow>
             if \<not> ok r then (failed, [outbound])
             else
               (let enhancedResponse =
                      r\<lparr>res_headers :=
                           headers_delete
                             (headers_delete (res_headers r) ''Content-Security-Policy'')
                             ''X-Content-Security-Policy''\<rparr>
                in (applyHtmlEnhancements pf enhancedResponse config, [outbound])))"

section \<open>The main request handler\<close>

text \<open>
  The part of \<open>fetchAndApply\<close> that follows the loading of the configuration. \<open>Inl\<close> is an
  exception that reaches the \<open>catch\<close> of \<open>fetchAndApply\<close>.
\<close>

definition dispatch ::
    "platform \<Rightarrow> config \<Rightarrow> request \<Rightarrow> js_error + (response \<times> request list)" where
  "dispatch pf config request =
     (let u = req_url request
      in if req_method request = ''OPTIONS'' then Inr (handleCorsPreflightRequest request, [])
         else
           (let notionUrl = u\<lparr>hostname := MY_NOTION_USERNAME @ ''.notion.site''\<rparr>
            in if pathname u = ''/robots.txt'' then Inr (generateRobotsTxt config, [])
               else if pathname u = ''/sitemap.xml'' then Inr (generateSitemapResponse config, [])
               else if pathname u = ''/health'' \<or> pathname u = ''/_health''
               then Inr (plain_response 200 [(''Content-Type'', ''text/plain'')] ''OK'', [])
               else if prefix ''/app'' (pathname u) \<and> suffix ''.js'' (pathname u)
               then Inr (handleJavaScriptAssets pf notionUrl config)
               else if prefix ''/api'' (pathname u)
               then Inr (handleApiRequests pf notionUrl request)
               else
                 (case handleSlugRedirection pf u config of
                    Inl error \<Rightarrow> Inl error
                  | Inr (Some slugRedirectResponse) \<Rightarrow> Inr (slugRedirectResponse, [])
                  | Inr None \<Rightarrow>
                      (case handleUnknownPageRedirection u config of
                         Some unknownPageRedirectResponse \<Rightarrow>
                           Inr (unknownPageRedirectResponse, [])
                       | None \<Rightarrow> Inr (handleHtmlContent pf notionUrl request config)))))"

text \<open>
  \<open>fetchAndApply\<close>: the response, the outbound requests issued for it, and the cache it
  leaves behind.
\<close>

definition fetchAndApply ::
    "platform \<Rightarrow> cache \<Rightarrow> request \<Rightarrow> (response \<times> request list) \<times> cache" where
  \<open>fetchAndApply pf domainConfigCache request =
     (let u = req_url request;
          host = strip_www (hostname u)
      in case getDomainConfig pf domainConfigCache host of
           (None, cache') \<Rightarrow>
             ((plain_response 404 [(''Content-Type'', ''text/plain'')]
                 (''Domain "'' @ host @ ''" not configured''), []), cache')
         | (Some config, cache') \<Rightarrow>
             (case dispatch pf config request of
                Inl (TypeError message) \<Rightarrow>
                  ((plain_response 500 [(''Content-Type'', ''text/plain'')]
                      (''Internal Server Error: '' @ message), []), cache')
              | Inr result \<Rightarrow> (result, cache')))\<close>

section \<open>Vocabulary of the properties and sample inputs\<close>

text \<open>A page id that counts: a string that is not empty.\<close>

definition nonempty_string :: "jsval \<Rightarrow> bool" where
  "nonempty_string v = (case v of JString p \<Rightarrow> p \<noteq> [] | JOther t r \<Rightarrow> False)"

text \<open>The text of a string value.\<close>

definition page_text :: "jsval \<Rightarrow> string" where
  "page_text v = (case v of JString p \<Rightarrow> p | JOther t r \<Rightarrow> [])"

definition valid_entries :: "jsval js_object \<Rightarrow> (string \<times> jsval) list" where
  "valid_entries m = filter (\<lambda>e. nonempty_string (snd e)) (Object_entries m)"

text \<open>The answer \<open>301\<close> to the root of the domain.\<close>

definition redirects_to_root :: "config \<Rightarrow> response \<Rightarrow> bool" where
  "redirects_to_root config r \<longleftrightarrow>
     status r = 301
     \<and> headers_get (res_headers r) ''Location'' = Some (''https://'' @ MY_DOMAIN config @ ''/'')"

definition page_a :: string where
  "page_a = ''a1a1a1a1a1a1a1a1a1a1a1a1a1a1a1a1''"

definition page_b :: string where
  "page_b = ''b2b2b2b2b2b2b2b2b2b2b2b2b2b2b2b2''"

definition page_c :: string where
  "page_c = ''c3c3c3c3c3c3c3c3c3c3c3c3c3c3c3c3''"

definition page_A :: string where
  "page_A = ''A1A1A1A1A1A1A1A1A1A1A1A1A1A1A1A1''"

text \<open>A stored configuration that holds nothing but \<open>SLUG_TO_PAGE\<close>.\<close>

definition raw_config :: "jsval js_object option \<Rightarrow> config" where
  "raw_config m =
     \<lparr>MY_DOMAIN = [], SLUG_TO_PAGE = m, SLUG_TO_PAGE_null = False, PAGE_TITLE = None,
      PAGE_DESCRIPTION = None, GOOGLE_FONT = None, CUSTOM_SCRIPT = None, PAGE_TO_SLUG = [],
      slugs = [], pages = []\<rparr>"

text \<open>
  A platform whose store holds two documents, one under \<open>ex.com\<close> that parses to the given
  configuration and one under \<open>bad.com\<close> that does not parse, and whose upstream answers
  every request with the same page; and the same platform with the document \<open>0\<close> under
  every hostname. The URL parser is given at the texts the samples use: a single dot
  disappears, the space of \<open>a b\<close> is encoded, and a page id of 32 hexadecimal digits stays
  as it is.
\<close>

definition sample_URL_after_origin :: "string \<Rightarrow> string" where
  "sample_URL_after_origin text =
     (if text = ''.'' then [] else if text = ''a b'' then ''a%20b'' else text)"

definition sample_page :: response where
  "sample_page =
     \<lparr>status = 200, res_headers = [(''Content-Type'', ''text/html'')],
      res_body = Some ''<html></html>''\<rparr>"

definition sample_platform :: "config \<Rightarrow> platform" where
  "sample_platform raw =
     \<lparr>DOMAINS_CONFIG_get = (\<lambda>h. if h = ''ex.com'' then KV_value (Some ''{...}'')
                                else if h = ''bad.com'' then KV_value (Some ''{oops'')
                                else KV_value None),
      JSON_parse = (\<lambda>s. if s = ''{...}'' then Parsed_object raw else SyntaxError),
      fetch = (\<lambda>r. Upstream sample_page),
      HTMLRewriter_transform = (\<lambda>c b. b),
      URL_after_origin = sample_URL_after_origin\<rparr>"

definition zero_platform :: platform where
  "zero_platform =
     \<lparr>DOMAINS_CONFIG_get = (\<lambda>h. KV_value (Some ''0'')),
      JSON_parse = (\<lambda>s. if s = ''0'' then Parsed_primitive False else SyntaxError),
      fetch = (\<lambda>r. Upstream sample_page),
      HTMLRewriter_transform = (\<lambda>c b. b),
      URL_after_origin = sample_URL_after_origin\<rparr>"

definition sample_request :: "string \<Rightarrow> string \<Rightarrow> string \<Rightarrow> headers \<Rightarrow> request" where
  "sample_request host meth path hs =
     \<lparr>req_url = \<lparr>hostname = host, pathname = path, search = []\<rparr>,
      req_method = meth, req_headers = hs, req_body = None\<rparr>"

text \<open>Headers of a preflight request, and the same with an empty last header.\<close>

definition preflight_headers :: headers where
  "preflight_headers =
     [(''Origin'', ''https://app.example''), (''Access-Control-Request-Method'', ''POST''),
      (''Access-Control-Request-Headers'', ''content-type'')]"

definition preflight_empty_headers :: headers where
  "preflight_empty_headers =
     [(''Origin'', ''https://app.example''), (''Access-Control-Request-Method'', ''POST''),
      (''Access-Control-Request-Headers'', [])]"

text \<open>The configuration of the specification's example scenarios.\<close>

definition sample_map :: "jsval js_object" where
  "sample_map = [([], JString page_a), (''about'', JString page_b)]"


text \<open>
  A configuration in which a year is a slug and two slugs name the same page: the members
  are written \<open>home\<close> first, \<open>2024\<close> second.
\<close>

definition alias_map :: "jsval js_object" where
  "alias_map = [(''home'', JString page_a), (''2024'', JString page_a)]"


text \<open>
  Configurations at the edge of the slug rule: a slug named like the health endpoint, a slug
  whose page id is the empty string, a slug mapped to an object with an own \<open>toString\<close>, and
  a slug whose page id holds a space; a page id that is also a slug, mapped to the empty
  array, and the same mapped to a single dot; two page ids that differ in letter case only;
  and a slug that is the upper-case form of a page id.
\<close>

definition edge_map :: "jsval js_object" where
  "edge_map =
     [([], JString page_a), (''about'', JString page_b), (''health'', JString page_c),
      (''draft'', JString []), (''odd'', JOther True None), (''sp'', JString ''a b'')]"

definition shadow_map :: "jsval js_object" where
  "shadow_map = [(''x'', JString page_a), (page_a, JOther True (Some []))]"

definition dot_map :: "jsval js_object" where
  "dot_map = [(''x'', JString page_a), (page_a, JString ''.'')]"

definition both_case_map :: "jsval js_object" where
  "both_case_map = [(''a'', JString page_a), (''b'', JString page_A)]"

definition case_slug_map :: "jsval js_object" where
  "case_slug_map = [(''a'', JString page_a), (page_A, JString page_b)]"

section \<open>Derived fields of a configuration\<close>

lemma nonempty_string_guard: "nonempty_string v \<longleftrightarrow> ToBoolean v \<and> typeof_string v"
  by (cases v) (auto simp: nonempty_string_def)

lemma nonempty_string_iff: "nonempty_string v \<longleftrightarrow> (\<exists>p. v = JString p \<and> p \<noteq> [])"
  by (cases v) (auto simp: nonempty_string_def)

lemma add_entry_eq:
  "add_entry c e =
     (if nonempty_string (snd e)
      then c\<lparr>slugs := slugs c @ [fst e],
             pages := pages c @ [page_text (snd e)],
             PAGE_TO_SLUG := js_set (PAGE_TO_SLUG c) (page_text (snd e)) (fst e)\<rparr>
      else c)"
  by (cases e; cases "snd e") (auto simp: add_entry_def nonempty_string_def page_text_def)

lemma add_entry_fields:
  "MY_DOMAIN (add_entry c e) = MY_DOMAIN c"
  "SLUG_TO_PAGE (add_entry c e) = SLUG_TO_PAGE c"
  by (simp_all add: add_entry_eq)

lemma inj_JString: "inj JString"
  by (simp add: inj_def)

lemma JString_page_text:
  "map JString (map (\<lambda>e. page_text (snd e)) (filter (\<lambda>e. nonempty_string (snd e)) es))
     = map snd (filter (\<lambda>e. nonempty_string (snd e)) es)"
  by (induction es) (auto simp: nonempty_string_iff page_text_def)

lemma foldl_add_entry_slugs:
  "slugs (foldl add_entry c es) = slugs c @ map fst (filter (\<lambda>e. nonempty_string (snd e)) es)"
  by (induction es arbitrary: c) (simp_all add: add_entry_eq)

lemma foldl_add_entry_pages:
  "pages (foldl add_entry c es) = pages c @ map (\<lambda>e. page_text (snd e)) (filter (\<lambda>e. nonempty_string (snd e)) es)"
  by (induction es arbitrary: c) (simp_all add: add_entry_eq)

lemma foldl_add_entry_PAGE_TO_SLUG:
  "map_of (PAGE_TO_SLUG (foldl add_entry c es)) p =
     (if p = ''__proto__'' then map_of (PAGE_TO_SLUG c) p
      else case map_of (rev (map (\<lambda>e. (page_text (snd e), fst e)) (filter (\<lambda>e. nonempty_string (snd e)) es))) p of
             Some s \<Rightarrow> Some s | None \<Rightarrow> map_of (PAGE_TO_SLUG c) p)"
proof (induction es arbitrary: c)
  case Nil
  then show ?case by simp
next
  case (Cons e es)
  show ?case
  proof (cases "nonempty_string (snd e)")
    case False
    then have "add_entry c e = c" by (simp_all add: add_entry_eq)
    with False Cons show ?thesis by simp
  next
    case True
    then have pts: "PAGE_TO_SLUG (add_entry c e) = js_set (PAGE_TO_SLUG c) (page_text (snd e)) (fst e)"
      by (simp_all add: add_entry_eq)
    show ?thesis
      using True by (auto simp: Cons pts js_set_def update_conv' map_add_def split: option.splits)
  qed
qed

lemma set_OwnPropertyKeys: "set (OwnPropertyKeys obj) = fst ` set obj"
  by (auto simp: OwnPropertyKeys_def)

lemma distinct_OwnPropertyKeys: "wf_object obj \<Longrightarrow> distinct (OwnPropertyKeys obj)"
  by (auto simp: OwnPropertyKeys_def wf_object_def distinct_map_filter)

lemma Object_entries_map:
  "Object_entries obj = map (\<lambda>k. (k, the (map_of obj k))) (OwnPropertyKeys obj)"
proof -
  have "\<And>ks. set ks \<subseteq> fst ` set obj \<Longrightarrow>
     concat (map (\<lambda>k. case map_of obj k of None \<Rightarrow> [] | Some v \<Rightarrow> [(k, v)]) ks)
       = map (\<lambda>k. (k, the (map_of obj k))) ks"
  proof -
    fix ks show "set ks \<subseteq> fst ` set obj \<Longrightarrow>
     concat (map (\<lambda>k. case map_of obj k of None \<Rightarrow> [] | Some v \<Rightarrow> [(k, v)]) ks)
       = map (\<lambda>k. (k, the (map_of obj k))) ks"
    by (induction ks) (auto simp: map_of_eq_None_iff split: option.splits)
  qed
  then show ?thesis unfolding Object_entries_def by (simp add: set_OwnPropertyKeys)
qed

lemma keys_Object_entries: "map fst (Object_entries obj) = OwnPropertyKeys obj"
  by (simp add: Object_entries_map comp_def)

lemma set_Object_entries:
  assumes "wf_object obj"
  shows "set (Object_entries obj) = set obj"
proof -
  have d: "distinct (map fst obj)" using assms by (simp add: wf_object_def)
  have look: "\<And>k v. (k, v) \<in> set obj \<Longrightarrow> map_of obj k = Some v"
    using d by simp
  have "set (Object_entries obj) = (\<lambda>k. (k, the (map_of obj k))) ` fst ` set obj"
    by (simp add: Object_entries_map set_OwnPropertyKeys)
  also have "\<dots> = set obj"
  proof (intro set_eqI iffI)
    fix e assume "e \<in> (\<lambda>k. (k, the (map_of obj k))) ` fst ` set obj"
    then obtain k v where kv: "(k, v) \<in> set obj" "e = (k, the (map_of obj k))" by auto
    with look[OF kv(1)] show "e \<in> set obj" by simp
  next
    fix e assume e: "e \<in> set obj"
    obtain k v where kv: "e = (k, v)" by (cases e)
    with e look have "map_of obj k = Some v" by simp
    then have "e = (\<lambda>k. (k, the (map_of obj k))) (fst e)" using kv by simp
    with e show "e \<in> (\<lambda>k. (k, the (map_of obj k))) ` fst ` set obj" by blast
  qed
  finally show ?thesis .
qed

lemma Object_entries_no_index:
  "\<forall>k \<in> fst ` set obj. \<not> is_array_index k \<Longrightarrow> wf_object obj \<Longrightarrow> Object_entries obj = obj"
proof -
  assume a: "\<forall>k \<in> fst ` set obj. \<not> is_array_index k" and w: "wf_object obj"
  have "filter is_array_index (map fst obj) = []" using a by (auto simp: filter_empty_conv)
  moreover have "filter (\<lambda>k. \<not> is_array_index k) (map fst obj) = map fst obj" using a by (auto simp: filter_id_conv)
  ultimately have k: "OwnPropertyKeys obj = map fst obj" by (simp add: OwnPropertyKeys_def)
  have "map (\<lambda>k. (k, the (map_of obj k))) (map fst obj) = obj"
  proof (intro nth_equalityI)
    show "length (map (\<lambda>k. (k, the (map_of obj k))) (map fst obj)) = length obj" by simp
  next
    fix i assume "i < length (map (\<lambda>k. (k, the (map_of obj k))) (map fst obj))"
    then have i: "i < length obj" by simp
    then have "obj ! i \<in> set obj" by simp
    then have "map_of obj (fst (obj ! i)) = Some (snd (obj ! i))"
      using w unfolding wf_object_def by simp
    then show "map (\<lambda>k. (k, the (map_of obj k))) (map fst obj) ! i = obj ! i"
      using i by simp
  qed
  then show ?thesis by (simp add: Object_entries_map k)
qed


lemmas entries_defs = Object_entries_def OwnPropertyKeys_def is_array_index_def is_digit_def
  decimal_value_def digit_value_def

lemma processConfigurationObject_fold:
  "SLUG_TO_PAGE c = Some m \<Longrightarrow>
   processConfigurationObject c
     = foldl add_entry (c\<lparr>PAGE_TO_SLUG := [], slugs := [], pages := []\<rparr>) (Object_entries m)"
  by (simp add: processConfigurationObject_def)

lemma slugs_process:
  "SLUG_TO_PAGE c = Some m \<Longrightarrow> slugs (processConfigurationObject c) = map fst (valid_entries m)"
  by (simp add: processConfigurationObject_fold foldl_add_entry_slugs valid_entries_def)

lemma pages_process:
  "SLUG_TO_PAGE c = Some m \<Longrightarrow>
   pages (processConfigurationObject c) = map (\<lambda>e. page_text (snd e)) (valid_entries m)"
  by (simp add: processConfigurationObject_fold foldl_add_entry_pages valid_entries_def)

lemma zip_pages_slugs:
  "SLUG_TO_PAGE c = Some m \<Longrightarrow>
   zip (pages (processConfigurationObject c)) (slugs (processConfigurationObject c))
     = map (\<lambda>e. (page_text (snd e), fst e)) (valid_entries m)"
  by (simp add: slugs_process pages_process zip_map_map zip_same_conv_map)

lemma PAGE_TO_SLUG_process:
  assumes "SLUG_TO_PAGE c = Some m"
  shows "map_of (PAGE_TO_SLUG (processConfigurationObject c)) p =
     (if p = ''__proto__'' then None
      else map_of (rev (zip (pages (processConfigurationObject c))
                            (slugs (processConfigurationObject c)))) p)"
  unfolding zip_pages_slugs[OF assms]
  by (simp add: processConfigurationObject_fold[OF assms] foldl_add_entry_PAGE_TO_SLUG
        valid_entries_def split: option.splits)

lemma valid_entry_lookup:
  assumes "wf_object m" and "e \<in> set (valid_entries m)"
  shows "map_of m (fst e) = Some (JString (page_text (snd e))) \<and> page_text (snd e) \<noteq> []"
proof -
  from assms have mem: "e \<in> set m" and ne: "nonempty_string (snd e)"
    by (auto simp: valid_entries_def set_Object_entries)
  from ne obtain p where p: "snd e = JString p" "p \<noteq> []" by (auto simp: nonempty_string_iff)
  from mem assms(1) have "map_of m (fst e) = Some (snd e)"
    unfolding wf_object_def by (metis map_of_eq_Some_iff prod.collapse)
  with p show ?thesis by (simp add: page_text_def)
qed

lemma aligned_process:
  assumes "wf_object m" and "SLUG_TO_PAGE c = Some m"
    and "i < length (slugs (processConfigurationObject c))"
  shows "map_of m (slugs (processConfigurationObject c) ! i)
           = Some (JString (pages (processConfigurationObject c) ! i))
         \<and> pages (processConfigurationObject c) ! i \<noteq> []"
proof -
  from assms(3) have i: "i < length (valid_entries m)" by (simp add: slugs_process[OF assms(2)])
  then have "valid_entries m ! i \<in> set (valid_entries m)" by simp
  from valid_entry_lookup[OF assms(1) this] i show ?thesis
    by (simp add: slugs_process[OF assms(2)] pages_process[OF assms(2)])
qed

lemma inverse_process:
  assumes w: "wf_object m" and c: "SLUG_TO_PAGE c = Some m"
    and d: "distinct (pages (processConfigurationObject c))"
    and np: "''__proto__'' \<notin> set (pages (processConfigurationObject c))"
  shows "map_of (PAGE_TO_SLUG (processConfigurationObject c)) p = Some s
         \<longleftrightarrow> map_of m s = Some (JString p) \<and> p \<noteq> []"
proof -
  let ?z = "map (\<lambda>e. (page_text (snd e), fst e)) (valid_entries m)"
  have dz: "distinct (map fst (rev ?z))"
    using d by (simp add: pages_process[OF c] comp_def rev_map[symmetric])
  have pg: "set (pages (processConfigurationObject c)) = fst ` set ?z"
    by (simp add: pages_process[OF c] image_image)
  have "map_of (PAGE_TO_SLUG (processConfigurationObject c)) p = Some s
        \<longleftrightarrow> p \<noteq> ''__proto__'' \<and> (p, s) \<in> set ?z"
    using map_of_eq_Some_iff[OF dz, of p s]
    by (simp add: PAGE_TO_SLUG_process[OF c] zip_pages_slugs[OF c])
  also have "\<dots> \<longleftrightarrow> (p, s) \<in> set ?z"
    using np pg by force
  also have "\<dots> \<longleftrightarrow> map_of m s = Some (JString p) \<and> p \<noteq> []"
  proof
    assume "(p, s) \<in> set ?z"
    then obtain e where e: "e \<in> set (valid_entries m)" "p = page_text (snd e)" "s = fst e" by auto
    from valid_entry_lookup[OF w e(1)] e show "map_of m s = Some (JString p) \<and> p \<noteq> []" by simp
  next
    assume a: "map_of m s = Some (JString p) \<and> p \<noteq> []"
    then have "(s, JString p) \<in> set m" by (auto dest: map_of_SomeD)
    then have "(s, JString p) \<in> set (valid_entries m)"
      using a by (simp add: valid_entries_def set_Object_entries[OF w] nonempty_string_def)
    then show "(p, s) \<in> set ?z" by (force simp: page_text_def)
  qed
  finally show ?thesis .
qed

text \<open>
  Claim C1, as the code has it. For a configuration object whose \<open>SLUG_TO_PAGE\<close> is an
  object \<open>m\<close>, the entries that count are those whose value is a non-empty string, taken in
  the order \<open>Object.entries\<close> enumerates \<open>m\<close>: \<open>slugs\<close> lists their keys and \<open>pages\<close>
  their page ids, so the two sequences have equal length and \<open>slugs[i]\<close> maps to
  \<open>pages[i]\<close> under \<open>SLUG_TO_PAGE\<close>. \<open>PAGE_TO_SLUG\<close> maps a page id to the last slug of
  that sequence that names it and never holds the key \<open>__proto__\<close>; when the page ids are
  pairwise distinct and none is \<open>__proto__\<close>, it is exactly the inverse of the entries that
  count. \<open>Object.entries\<close> enumerates the same entries as \<open>m\<close> declares, and in
  declaration order when no key is an array index.
\<close>

theorem processConfigurationObject_derived:
  assumes "wf_object m" and "SLUG_TO_PAGE c = Some m"
  shows "slugs (processConfigurationObject c)
           = map fst (filter (\<lambda>e. nonempty_string (snd e)) (Object_entries m))
       \<and> map JString (pages (processConfigurationObject c))
           = map snd (filter (\<lambda>e. nonempty_string (snd e)) (Object_entries m))
       \<and> length (slugs (processConfigurationObject c)) = length (pages (processConfigurationObject c))
       \<and> (\<forall>i < length (slugs (processConfigurationObject c)).
             map_of m (slugs (processConfigurationObject c) ! i)
               = Some (JString (pages (processConfigurationObject c) ! i))
             \<and> pages (processConfigurationObject c) ! i \<noteq> [])
       \<and> (\<forall>p. map_of (PAGE_TO_SLUG (processConfigurationObject c)) p
               = (if p = ''__proto__'' then None
                  else map_of (rev (zip (pages (processConfigurationObject c))
                                        (slugs (processConfigurationObject c)))) p))
       \<and> (distinct (pages (processConfigurationObject c))
            \<and> ''__proto__'' \<notin> set (pages (processConfigurationObject c))
          \<longrightarrow> (\<forall>s p. map_of (PAGE_TO_SLUG (processConfigurationObject c)) p = Some s
                       \<longleftrightarrow> map_of m s = Some (JString p) \<and> p \<noteq> []))
       \<and> set (Object_entries m) = set m
       \<and> ((\<forall>k \<in> fst ` set m. \<not> is_array_index k) \<longrightarrow> Object_entries m = m)"
proof -
  have pg: "map JString (pages (processConfigurationObject c))
              = map snd (filter (\<lambda>e. nonempty_string (snd e)) (Object_entries m))"
    unfolding pages_process[OF assms(2)] valid_entries_def by (rule JString_page_text)
  have ln: "length (slugs (processConfigurationObject c)) = length (pages (processConfigurationObject c))"
    by (simp add: slugs_process[OF assms(2)] pages_process[OF assms(2)])
  from slugs_process[OF assms(2)] pg ln aligned_process[OF assms]
    PAGE_TO_SLUG_process[OF assms(2)] inverse_process[OF assms]
    set_Object_entries[OF assms(1)] Object_entries_no_index[OF _ assms(1)]
  show ?thesis
    unfolding valid_entries_def by blast
qed



text \<open>
  The theorem at the configuration of the example scenarios: every hypothesis holds there.
\<close>

theorem processConfigurationObject_derived_witness:
  "wf_object sample_map
   \<and> SLUG_TO_PAGE (raw_config (Some sample_map)) = Some sample_map
   \<and> \<not> is_array_index [] \<and> \<not> is_array_index ''about''
   \<and> slugs (processConfigurationObject (raw_config (Some sample_map))) = ['''', ''about'']
   \<and> pages (processConfigurationObject (raw_config (Some sample_map))) = [page_a, page_b]
   \<and> distinct (pages (processConfigurationObject (raw_config (Some sample_map))))
   \<and> ''__proto__'' \<notin> set (pages (processConfigurationObject (raw_config (Some sample_map))))
   \<and> map_of sample_map ''about'' = Some (JString page_b)
   \<and> map_of (PAGE_TO_SLUG (processConfigurationObject (raw_config (Some sample_map)))) page_b
       = Some ''about''
   \<and> Object_entries sample_map = sample_map"
proof -
  have w: "wf_object sample_map"
    by (simp add: wf_object_def sample_map_def)
  have c: "SLUG_TO_PAGE (raw_config (Some sample_map)) = Some sample_map"
    by (simp add: raw_config_def)
  have n: "\<forall>k \<in> fst ` set sample_map. \<not> is_array_index k"
    by (simp add: sample_map_def is_array_index_def is_digit_def)
  note T = processConfigurationObject_derived [OF w c]
  from T n have e: "Object_entries sample_map = sample_map" by blast
  from T e have s: "slugs (processConfigurationObject (raw_config (Some sample_map))) = ['''', ''about'']"
    by (simp add: sample_map_def nonempty_string_def page_a_def page_b_def)
  from T e have "map JString (pages (processConfigurationObject (raw_config (Some sample_map))))
                   = map JString [page_a, page_b]"
    by (simp add: sample_map_def nonempty_string_def page_a_def page_b_def)
  then have p: "pages (processConfigurationObject (raw_config (Some sample_map))) = [page_a, page_b]"
    by (simp only: inj_map_eq_map[OF inj_JString])
  have d: "distinct (pages (processConfigurationObject (raw_config (Some sample_map))))
     \<and> ''__proto__'' \<notin> set (pages (processConfigurationObject (raw_config (Some sample_map))))"
    by (simp add: p page_a_def page_b_def)
  have l: "map_of sample_map ''about'' = Some (JString page_b)"
    by (simp add: sample_map_def)
  have nb: "page_b \<noteq> []"
    by (simp add: page_b_def)
  from T d have "\<forall>s p. map_of (PAGE_TO_SLUG (processConfigurationObject (raw_config (Some sample_map)))) p = Some s
       \<longleftrightarrow> map_of sample_map s = Some (JString p) \<and> p \<noteq> []"
    by blast
  with l nb have i: "map_of (PAGE_TO_SLUG (processConfigurationObject (raw_config (Some sample_map)))) page_b
       = Some ''about''"
    by blast
  have n': "\<not> is_array_index [] \<and> \<not> is_array_index ''about''"
    by (simp add: is_array_index_def is_digit_def)
  from w c n' s p d l i e show ?thesis by blast
qed

text \<open>
  Where C1 as written fails: \<open>2024\<close> maps to a valid page id, yet \<open>PAGE_TO_SLUG\<close> sends that
  page id to \<open>home\<close>; and \<open>slugs\<close> starts with \<open>2024\<close>, which is declared last.
\<close>

theorem processConfigurationObject_counterexample:
  "wf_object alias_map
   \<and> map_of alias_map ''2024'' = Some (JString page_a) \<and> page_a \<noteq> []
   \<and> map_of (PAGE_TO_SLUG (processConfigurationObject (raw_config (Some alias_map)))) page_a
       = Some ''home''
   \<and> map fst (filter (\<lambda>e. nonempty_string (snd e)) alias_map) = [''home'', ''2024'']
   \<and> slugs (processConfigurationObject (raw_config (Some alias_map))) = [''2024'', ''home'']"
  by (simp add: wf_object_def alias_map_def page_a_def nonempty_string_def
        processConfigurationObject_def raw_config_def entries_defs add_entry_def js_set_def)

section \<open>Configuration resolution\<close>

lemma getDomainConfig_hit:
  "cache (strip_www host) = Some (Cached config)
   \<Longrightarrow> getDomainConfig pf cache host = (Some config, cache)"
  by (simp add: getDomainConfig_def manualConfig_def Let_def)

lemma getDomainConfig_hit_falsy:
  "cache (strip_www host) = Some Cached_falsy \<Longrightarrow> getDomainConfig pf cache host = (None, cache)"
  by (simp add: getDomainConfig_def manualConfig_def Let_def)

lemma getDomainConfig_null:
  "cache (strip_www host) = None
   \<Longrightarrow> DOMAINS_CONFIG_get pf (strip_www host) = KV_value (Some d)
   \<Longrightarrow> JSON_parse pf d = Parsed_null
   \<Longrightarrow> getDomainConfig pf cache host = (None, cache)"
  by (simp add: getDomainConfig_def manualConfig_def Let_def)

lemma getDomainConfig_falsy:
  "cache (strip_www host) = None
   \<Longrightarrow> DOMAINS_CONFIG_get pf (strip_www host) = KV_value (Some d) \<Longrightarrow> d \<noteq> []
   \<Longrightarrow> JSON_parse pf d = Parsed_primitive False
   \<Longrightarrow> getDomainConfig pf cache host = (None, cache(strip_www host \<mapsto> Cached_falsy))"
  by (simp add: getDomainConfig_def manualConfig_def Let_def)

lemma getDomainConfig_absent:
  "cache (strip_www host) = None \<Longrightarrow> DOMAINS_CONFIG_get pf (strip_www host) = KV_value None
   \<Longrightarrow> getDomainConfig pf cache host = (None, cache)"
  by (simp add: getDomainConfig_def manualConfig_def Let_def)

lemma getDomainConfig_throws:
  "cache (strip_www host) = None \<Longrightarrow> DOMAINS_CONFIG_get pf (strip_www host) = KV_throws
   \<Longrightarrow> getDomainConfig pf cache host = (None, cache)"
  by (simp add: getDomainConfig_def manualConfig_def Let_def)

lemma getDomainConfig_unparseable:
  "cache (strip_www host) = None
   \<Longrightarrow> DOMAINS_CONFIG_get pf (strip_www host) = KV_value (Some d)
   \<Longrightarrow> JSON_parse pf d = SyntaxError
   \<Longrightarrow> getDomainConfig pf cache host = (None, cache)"
  by (simp add: getDomainConfig_def manualConfig_def Let_def)

lemma getDomainConfig_stored:
  "cache (strip_www host) = None
   \<Longrightarrow> DOMAINS_CONFIG_get pf (strip_www host) = KV_value (Some d) \<Longrightarrow> d \<noteq> []
   \<Longrightarrow> JSON_parse pf d = Parsed_object raw
   \<Longrightarrow> getDomainConfig pf cache host
       = (Some (processConfigurationObject (raw\<lparr>MY_DOMAIN := strip_www host\<rparr>)),
          cache(strip_www host
                 \<mapsto> Cached (processConfigurationObject (raw\<lparr>MY_DOMAIN := strip_www host\<rparr>))))"
  by (simp add: getDomainConfig_def manualConfig_def Let_def)

lemma getDomainConfig_cache_cases:
  "getDomainConfig pf cache host = (r, cache')
   \<Longrightarrow> cache' = cache \<or> (\<exists>v. cache' = cache(strip_www host \<mapsto> v))"
  by (auto simp: getDomainConfig_def manualConfig_def Let_def
           split: option.splits cached.splits kv_result.splits parse_result.splits if_splits)

lemma fetchAndApply_unresolved:
  "getDomainConfig pf cache (strip_www (hostname (req_url request))) = (None, cache')
   \<Longrightarrow> fetchAndApply pf cache request
       = ((plain_response 404 [(''Content-Type'', ''text/plain'')]
             (''Domain '' @ [CHR 0x22] @ strip_www (hostname (req_url request)) @ [CHR 0x22]
              @ '' not configured''), []), cache')"
  by (simp add: fetchAndApply_def Let_def)

lemma fetchAndApply_resolved:
  "getDomainConfig pf cache (strip_www (hostname (req_url request))) = (Some config, cache')
   \<Longrightarrow> fetchAndApply pf cache request
       = (case dispatch pf config request of
            Inl (TypeError message) \<Rightarrow>
              ((plain_response 500 [(''Content-Type'', ''text/plain'')]
                  (''Internal Server Error: '' @ message), []), cache')
          | Inr result \<Rightarrow> (result, cache'))"
  by (simp add: fetchAndApply_def Let_def)

lemma dispatch_options:
  "req_method request = ''OPTIONS''
   \<Longrightarrow> dispatch pf config request = Inr (handleCorsPreflightRequest request, [])"
  by (simp add: dispatch_def Let_def)

lemma dispatch_health:
  "req_method request \<noteq> ''OPTIONS''
   \<Longrightarrow> pathname (req_url request) = ''/health'' \<or> pathname (req_url request) = ''/_health''
   \<Longrightarrow> dispatch pf config request
       = Inr (plain_response 200 [(''Content-Type'', ''text/plain'')] ''OK'', [])"
  by (auto simp: dispatch_def Let_def)

lemmas sample_defs = sample_platform_def sample_request_def raw_config_def sample_map_def
  sample_page_def page_a_def page_b_def page_c_def page_A_def

lemma sample_resolution:
  "getDomainConfig (sample_platform raw) Map.empty ''ex.com''
     = (Some (processConfigurationObject (raw\<lparr>MY_DOMAIN := ''ex.com''\<rparr>)),
        [''ex.com'' \<mapsto> Cached (processConfigurationObject (raw\<lparr>MY_DOMAIN := ''ex.com''\<rparr>))])"
  by (simp add: getDomainConfig_def manualConfig_def Let_def sample_platform_def strip_www_def)

lemma sample_no_resolution:
  "getDomainConfig (sample_platform raw) Map.empty ''nope.com'' = (None, Map.empty)"
  by (simp add: getDomainConfig_def manualConfig_def Let_def sample_platform_def strip_www_def)

text \<open>
  Claim C2, as the code has it. A \<open>GET\<close> request for \<open>/health\<close> or \<open>/_health\<close> is answered
  with status 200 and the plain text \<open>OK\<close> whenever a configuration resolves for the
  requesting hostname, whatever that configuration holds; when none resolves, the answer is
  the 404 that names the hostname, as for every other path.
\<close>

theorem health_endpoint:
  assumes "req_method request = ''GET''"
    and "pathname (req_url request) = ''/health'' \<or> pathname (req_url request) = ''/_health''"
  shows "(\<forall>config cache'.
            getDomainConfig pf cache (strip_www (hostname (req_url request))) = (Some config, cache')
            \<longrightarrow> fetchAndApply pf cache request
                  = ((\<lparr>status = 200, res_headers = [(''Content-Type'', ''text/plain'')],
                       res_body = Some ''OK''\<rparr>, []), cache'))
       \<and> (\<forall>cache'.
            getDomainConfig pf cache (strip_www (hostname (req_url request))) = (None, cache')
            \<longrightarrow> fetchAndApply pf cache request
                  = ((\<lparr>status = 404, res_headers = [(''Content-Type'', ''text/plain'')],
                       res_body = Some (''Domain '' @ [CHR 0x22]
                                        @ strip_www (hostname (req_url request))
                                        @ [CHR 0x22] @ '' not configured'')\<rparr>, []), cache'))"
proof -
  from assms(1) have m: "req_method request \<noteq> ''OPTIONS''" by simp
  show ?thesis
    by (simp add: fetchAndApply_resolved fetchAndApply_unresolved dispatch_health[OF m assms(2)]
          plain_response_def)
qed

text \<open>The theorem at \<open>ex.com\<close>, which is configured, and at \<open>nope.com\<close>, which is not.\<close>

theorem health_endpoint_witness:
  "req_method (sample_request ''ex.com'' ''GET'' ''/health'' []) = ''GET''
   \<and> pathname (req_url (sample_request ''ex.com'' ''GET'' ''/health'' [])) = ''/health''
   \<and> fst (getDomainConfig (sample_platform (raw_config (Some sample_map))) Map.empty ''ex.com'')
       = Some (processConfigurationObject (raw_config (Some sample_map)\<lparr>MY_DOMAIN := ''ex.com''\<rparr>))
   \<and> fst (fst (fetchAndApply (sample_platform (raw_config (Some sample_map))) Map.empty
                 (sample_request ''ex.com'' ''GET'' ''/health'' [])))
       = \<lparr>status = 200, res_headers = [(''Content-Type'', ''text/plain'')], res_body = Some ''OK''\<rparr>
   \<and> fst (getDomainConfig (sample_platform (raw_config (Some sample_map))) Map.empty ''nope.com'')
       = None
   \<and> status (fst (fst (fetchAndApply (sample_platform (raw_config (Some sample_map))) Map.empty
                 (sample_request ''nope.com'' ''GET'' ''/_health'' [])))) = 404"
proof -
  let ?pf = "sample_platform (raw_config (Some sample_map))"
  have m: "req_method (sample_request ''ex.com'' ''GET'' ''/health'' []) = ''GET''"
    and p: "pathname (req_url (sample_request ''ex.com'' ''GET'' ''/health'' [])) = ''/health''"
    and h: "strip_www (hostname (req_url (sample_request ''ex.com'' ''GET'' ''/health'' []))) = ''ex.com''"
    by (simp_all add: sample_request_def strip_www_def)
  have m': "req_method (sample_request ''nope.com'' ''GET'' ''/_health'' []) = ''GET''"
    and p': "pathname (req_url (sample_request ''nope.com'' ''GET'' ''/_health'' [])) = ''/_health''"
    and h': "strip_www (hostname (req_url (sample_request ''nope.com'' ''GET'' ''/_health'' []))) = ''nope.com''"
    by (simp_all add: sample_request_def strip_www_def)
  from p have p1: "pathname (req_url (sample_request ''ex.com'' ''GET'' ''/health'' [])) = ''/health''
     \<or> pathname (req_url (sample_request ''ex.com'' ''GET'' ''/health'' [])) = ''/_health''" by simp
  from p' have p2: "pathname (req_url (sample_request ''nope.com'' ''GET'' ''/_health'' [])) = ''/health''
     \<or> pathname (req_url (sample_request ''nope.com'' ''GET'' ''/_health'' [])) = ''/_health''" by simp
  note A = health_endpoint [OF m p1, of ?pf Map.empty]
  note B = health_endpoint [OF m' p2, of ?pf Map.empty]
  have a: "fst (fst (fetchAndApply ?pf Map.empty (sample_request ''ex.com'' ''GET'' ''/health'' [])))
       = \<lparr>status = 200, res_headers = [(''Content-Type'', ''text/plain'')], res_body = Some ''OK''\<rparr>"
    using A by (simp add: h sample_resolution)
  have b: "status (fst (fst (fetchAndApply ?pf Map.empty (sample_request ''nope.com'' ''GET'' ''/_health'' [])))) = 404"
    using B by (simp add: h' sample_no_resolution)
  from m p a b show ?thesis by (simp add: sample_resolution sample_no_resolution)
qed

text \<open>
  Where C2 as written fails: no configuration resolves for \<open>nope.com\<close>, and its
  \<open>/health\<close> is answered with 404.
\<close>

theorem health_endpoint_counterexample:
  \<open>req_method (sample_request ''nope.com'' ''GET'' ''/health'' []) = ''GET''
   \<and> pathname (req_url (sample_request ''nope.com'' ''GET'' ''/health'' [])) = ''/health''
   \<and> fst (fst (fetchAndApply (sample_platform (raw_config (Some sample_map))) Map.empty
                 (sample_request ''nope.com'' ''GET'' ''/health'' [])))
       = \<lparr>status = 404, res_headers = [(''Content-Type'', ''text/plain'')],
          res_body = Some ''Domain "nope.com" not configured''\<rparr>\<close>
  by (simp add: fetchAndApply_def Let_def sample_request_def strip_www_def
        getDomainConfig_def manualConfig_def sample_platform_def plain_response_def)


section \<open>CORS\<close>

lemma truthy_iff: "truthy x \<longleftrightarrow> (\<exists>v. x = Some v \<and> v \<noteq> [])"
  by (cases x) (simp_all add: truthy_def)

text \<open>
  Claim C6, as the code has it. The preflight handler answers 204 with the fixed CORS headers
  when \<open>Origin\<close>, \<open>Access-Control-Request-Method\<close> and \<open>Access-Control-Request-Headers\<close>
  are all present with a non-empty value, and 405 with the \<open>Allow\<close> header when one of them
  is missing or empty; an \<open>OPTIONS\<close> request for a hostname whose configuration resolves is
  answered by this handler.
\<close>

theorem cors_preflight:
  "((\<exists>a. headers_get (req_headers request) ''Origin'' = Some a \<and> a \<noteq> [])
      \<and> (\<exists>b. headers_get (req_headers request) ''Access-Control-Request-Method'' = Some b \<and> b \<noteq> [])
      \<and> (\<exists>c. headers_get (req_headers request) ''Access-Control-Request-Headers'' = Some c \<and> c \<noteq> [])
    \<longrightarrow> handleCorsPreflightRequest request
          = \<lparr>status = 204,
             res_headers = [(''Access-Control-Allow-Origin'', ''*''),
                            (''Access-Control-Allow-Methods'', ''GET, HEAD, POST, PUT, OPTIONS''),
                            (''Access-Control-Allow-Headers'', ''Content-Type, Authorization'')],
             res_body = None\<rparr>)
   \<and> (headers_get (req_headers request) ''Origin'' \<in> {None, Some []}
        \<or> headers_get (req_headers request) ''Access-Control-Request-Method'' \<in> {None, Some []}
        \<or> headers_get (req_headers request) ''Access-Control-Request-Headers'' \<in> {None, Some []}
    \<longrightarrow> handleCorsPreflightRequest request
          = \<lparr>status = 405, res_headers = [(''Allow'', ''GET, HEAD, POST, PUT, OPTIONS'')],
             res_body = None\<rparr>)
   \<and> (\<forall>config cache'.
         req_method request = ''OPTIONS''
         \<and> getDomainConfig pf cache (strip_www (hostname (req_url request))) = (Some config, cache')
         \<longrightarrow> fetchAndApply pf cache request = ((handleCorsPreflightRequest request, []), cache'))"
proof (intro conjI impI allI)
  assume "(\<exists>a. headers_get (req_headers request) ''Origin'' = Some a \<and> a \<noteq> [])
      \<and> (\<exists>b. headers_get (req_headers request) ''Access-Control-Request-Method'' = Some b \<and> b \<noteq> [])
      \<and> (\<exists>c. headers_get (req_headers request) ''Access-Control-Request-Headers'' = Some c \<and> c \<noteq> [])"
  then have "truthy (headers_get (req_headers request) ''Origin'')
      \<and> truthy (headers_get (req_headers request) ''Access-Control-Request-Method'')
      \<and> truthy (headers_get (req_headers request) ''Access-Control-Request-Headers'')"
    by (simp add: truthy_iff)
  then show "handleCorsPreflightRequest request
          = \<lparr>status = 204,
             res_headers = [(''Access-Control-Allow-Origin'', ''*''),
                            (''Access-Control-Allow-Methods'', ''GET, HEAD, POST, PUT, OPTIONS''),
                            (''Access-Control-Allow-Headers'', ''Content-Type, Authorization'')],
             res_body = None\<rparr>"
    by (simp add: handleCorsPreflightRequest_def Let_def corsHeaders_def)
next
  assume "headers_get (req_headers request) ''Origin'' \<in> {None, Some []}
        \<or> headers_get (req_headers request) ''Access-Control-Request-Method'' \<in> {None, Some []}
        \<or> headers_get (req_headers request) ''Access-Control-Request-Headers'' \<in> {None, Some []}"
  then have "\<not> (truthy (headers_get (req_headers request) ''Origin'')
      \<and> truthy (headers_get (req_headers request) ''Access-Control-Request-Method'')
      \<and> truthy (headers_get (req_headers request) ''Access-Control-Request-Headers''))"
    by (auto simp: truthy_iff)
  then show "handleCorsPreflightRequest request
          = \<lparr>status = 405, res_headers = [(''Allow'', ''GET, HEAD, POST, PUT, OPTIONS'')],
             res_body = None\<rparr>"
    by (simp add: handleCorsPreflightRequest_def Let_def del: de_Morgan_conj)
next
  fix config cache'
  assume "req_method request = ''OPTIONS''
         \<and> getDomainConfig pf cache (strip_www (hostname (req_url request))) = (Some config, cache')"
  then show "fetchAndApply pf cache request = ((handleCorsPreflightRequest request, []), cache')"
    by (simp add: fetchAndApply_resolved dispatch_options)
qed

lemma lower_names:
  "map to_lower ''Origin'' = ''origin''"
  "map to_lower ''Access-Control-Request-Method'' = ''access-control-request-method''"
  "map to_lower ''Access-Control-Request-Headers'' = ''access-control-request-headers''"
  "map to_lower ''Location'' = ''location''"
  by (simp_all add: to_lower_def)

lemma headers_get_Nil: "headers_get [] name = None"
  by (simp add: headers_get_def)

lemma join_Cons: "join (v # vs) sep = (if vs = [] then v else v @ sep @ join vs sep)"
  by (cases vs) simp_all

lemma headers_get_Cons:
  "headers_get ((k, v) # hs) name
     = (if map to_lower k = map to_lower name
        then Some (case headers_get hs name of None \<Rightarrow> v | Some r \<Rightarrow> v @ '', '' @ r)
        else headers_get hs name)"
  by (simp add: headers_get_def join_Cons split: list.splits)

lemmas header_defs = headers_get_Nil headers_get_Cons lower_names
  preflight_headers_def preflight_empty_headers_def

text \<open>The theorem at a preflight with all three headers and at one with none.\<close>

theorem cors_preflight_witness:
  "headers_get (req_headers (sample_request ''ex.com'' ''OPTIONS'' ''/about'' preflight_headers))
       ''Access-Control-Request-Headers'' = Some ''content-type''
   \<and> status (handleCorsPreflightRequest
                (sample_request ''ex.com'' ''OPTIONS'' ''/about'' preflight_headers)) = 204
   \<and> headers_get (req_headers (sample_request ''ex.com'' ''OPTIONS'' ''/about'' [])) ''Origin'' = None
   \<and> status (handleCorsPreflightRequest (sample_request ''ex.com'' ''OPTIONS'' ''/about'' [])) = 405
   \<and> status (fst (fst (fetchAndApply (sample_platform (raw_config (Some sample_map))) Map.empty
                 (sample_request ''ex.com'' ''OPTIONS'' ''/about'' preflight_headers)))) = 204"
proof -
  let ?pf = "sample_platform (raw_config (Some sample_map))"
  let ?r = "sample_request ''ex.com'' ''OPTIONS'' ''/about'' preflight_headers"
  let ?e = "sample_request ''ex.com'' ''OPTIONS'' ''/about'' []"
  have o: "headers_get (req_headers ?r) ''Origin'' = Some ''https://app.example''"
    and m: "headers_get (req_headers ?r) ''Access-Control-Request-Method'' = Some ''POST''"
    and h: "headers_get (req_headers ?r) ''Access-Control-Request-Headers'' = Some ''content-type''"
    by (simp_all add: sample_request_def header_defs)
  have n: "headers_get (req_headers ?e) ''Origin'' = None"
    by (simp add: sample_request_def header_defs)
  have r: "req_method ?r = ''OPTIONS''"
    and g: "getDomainConfig ?pf Map.empty (strip_www (hostname (req_url ?r)))
            = (Some (processConfigurationObject (raw_config (Some sample_map)\<lparr>MY_DOMAIN := ''ex.com''\<rparr>)),
               [''ex.com'' \<mapsto> Cached (processConfigurationObject (raw_config (Some sample_map)\<lparr>MY_DOMAIN := ''ex.com''\<rparr>))])"
    by (simp_all add: sample_request_def strip_www_def sample_resolution)
  note A = cors_preflight [of ?r ?pf Map.empty]
  note B = cors_preflight [of ?e ?pf Map.empty]
  from A o m h have a: "status (handleCorsPreflightRequest ?r) = 204" by simp
  from B n have b: "status (handleCorsPreflightRequest ?e) = 405" by simp
  from A r g a have c: "status (fst (fst (fetchAndApply ?pf Map.empty ?r))) = 204" by simp
  from h a n b c show ?thesis by simp
qed

text \<open>
  Where C6 as written fails: all three headers are present, the last with an empty value, and
  the answer is 405.
\<close>

theorem cors_preflight_counterexample:
  "headers_get (req_headers (sample_request ''ex.com'' ''OPTIONS'' ''/about'' preflight_empty_headers))
       ''Origin'' = Some ''https://app.example''
   \<and> headers_get (req_headers (sample_request ''ex.com'' ''OPTIONS'' ''/about'' preflight_empty_headers))
       ''Access-Control-Request-Method'' = Some ''POST''
   \<and> headers_get (req_headers (sample_request ''ex.com'' ''OPTIONS'' ''/about'' preflight_empty_headers))
       ''Access-Control-Request-Headers'' = Some []
   \<and> handleCorsPreflightRequest
         (sample_request ''ex.com'' ''OPTIONS'' ''/about'' preflight_empty_headers)
       = \<lparr>status = 405, res_headers = [(''Allow'', ''GET, HEAD, POST, PUT, OPTIONS'')],
          res_body = None\<rparr>"
  by (simp add: sample_request_def header_defs handleCorsPreflightRequest_def Let_def truthy_def)


section \<open>A stored document that is not an object\<close>

text \<open>
  Claim C9 at the stored document \<open>0\<close>. The document parses, to a falsy number; the worker
  stores that value in the cache under the hostname and returns it, and the visitor gets the
  404 of a hostname that is not configured. From then on the entry answers: a later
  resolution, against a store that holds a configuration for the hostname, does not ask the
  store and gives the same 404.
\<close>

theorem falsy_document_is_cached:
  "DOMAINS_CONFIG_get zero_platform ''ex.com'' = KV_value (Some ''0'')
   \<and> JSON_parse zero_platform ''0'' = Parsed_primitive False
   \<and> getDomainConfig zero_platform Map.empty ''ex.com''
       = (None, [''ex.com'' \<mapsto> Cached_falsy])
   \<and> status (fst (fst (fetchAndApply zero_platform Map.empty
                         (sample_request ''ex.com'' ''GET'' ''/about'' [])))) = 404
   \<and> snd (fetchAndApply zero_platform Map.empty (sample_request ''ex.com'' ''GET'' ''/about'' []))
       = [''ex.com'' \<mapsto> Cached_falsy]
   \<and> DOMAINS_CONFIG_get (sample_platform (raw_config (Some sample_map))) ''ex.com''
       = KV_value (Some ''{...}'')
   \<and> JSON_parse (sample_platform (raw_config (Some sample_map))) ''{...}''
       = Parsed_object (raw_config (Some sample_map))
   \<and> getDomainConfig (sample_platform (raw_config (Some sample_map)))
         [''ex.com'' \<mapsto> Cached_falsy] ''ex.com''
       = (None, [''ex.com'' \<mapsto> Cached_falsy])
   \<and> status (fst (fst (fetchAndApply (sample_platform (raw_config (Some sample_map)))
                         [''ex.com'' \<mapsto> Cached_falsy]
                         (sample_request ''ex.com'' ''GET'' ''/about'' [])))) = 404"
proof -
  let ?r = "sample_request ''ex.com'' ''GET'' ''/about'' []"
  let ?pf = "sample_platform (raw_config (Some sample_map))"
  have h: "strip_www (hostname (req_url ?r)) = ''ex.com''" and s: "strip_www ''ex.com'' = ''ex.com''"
    by (simp_all add: sample_request_def strip_www_def)
  have k: "DOMAINS_CONFIG_get zero_platform ''ex.com'' = KV_value (Some ''0'')"
    and j: "JSON_parse zero_platform ''0'' = Parsed_primitive False"
    and k': "DOMAINS_CONFIG_get ?pf ''ex.com'' = KV_value (Some ''{...}'')"
    and j': "JSON_parse ?pf ''{...}'' = Parsed_object (raw_config (Some sample_map))"
    by (simp_all add: zero_platform_def sample_platform_def)
  have g: "getDomainConfig zero_platform Map.empty ''ex.com'' = (None, [''ex.com'' \<mapsto> Cached_falsy])"
    using getDomainConfig_falsy [of Map.empty "''ex.com''" zero_platform "''0''"] k j
    by (simp add: s)
  have g': "getDomainConfig ?pf [''ex.com'' \<mapsto> Cached_falsy] ''ex.com''
              = (None, [''ex.com'' \<mapsto> Cached_falsy])"
    by (rule getDomainConfig_hit_falsy) (simp add: s)
  have f: "fetchAndApply zero_platform Map.empty ?r
      = ((plain_response 404 [(''Content-Type'', ''text/plain'')]
             (''Domain '' @ [CHR 0x22] @ strip_www (hostname (req_url ?r)) @ [CHR 0x22]
              @ '' not configured''), []), [''ex.com'' \<mapsto> Cached_falsy])"
    by (rule fetchAndApply_unresolved) (simp add: h g)
  have f': "fetchAndApply ?pf [''ex.com'' \<mapsto> Cached_falsy] ?r
      = ((plain_response 404 [(''Content-Type'', ''text/plain'')]
             (''Domain '' @ [CHR 0x22] @ strip_www (hostname (req_url ?r)) @ [CHR 0x22]
              @ '' not configured''), []), [''ex.com'' \<mapsto> Cached_falsy])"
    by (rule fetchAndApply_unresolved) (simp add: h g')
  from k j g k' j' g' show ?thesis
    by (simp add: f f' plain_response_def)
qed

section \<open>Sitemap\<close>

text \<open>
  Claim C8. The sitemap of a configuration is the fixed head, one \<open><url>\<close> element per
  element of \<open>slugs\<close>, in the order of \<open>slugs\<close> and joined by line breaks, and the fixed
  tail; the element of the root slug locates \<open>https://<domain>/\<close> and that of any other slug
  \<open>https://<domain>/<slug>\<close>, each with weekly change frequency and priority 0.8. The
  response for \<open>/sitemap.xml\<close> carries that document as \<open>application/xml\<close>.
\<close>

theorem sitemap_entries:
  "generateSitemap (MY_DOMAIN config) (Some (map Some (slugs config)))
     = sitemap_head
       @ join (map (\<lambda>slug. ''<url><loc>''
                      @ (if slug = [] then ''https://'' @ MY_DOMAIN config @ ''/''
                         else ''https://'' @ MY_DOMAIN config @ ''/'' @ slug)
                      @ ''</loc><changefreq>weekly</changefreq><priority>0.8</priority></url>'')
                   (slugs config)) newline
       @ sitemap_tail
   \<and> generateSitemapResponse config
       = \<lparr>status = 200, res_headers = [(''Content-Type'', ''application/xml'')],
          res_body = Some (generateSitemap (MY_DOMAIN config) (Some (map Some (slugs config))))\<rparr>
   \<and> length (map (sitemap_url (MY_DOMAIN config)) (slugs config)) = length (slugs config)
   \<and> sitemap_url (MY_DOMAIN config) [] = ''<url><loc>https://'' @ MY_DOMAIN config
         @ ''/</loc><changefreq>weekly</changefreq><priority>0.8</priority></url>''"
proof -
  have c: "concat (map ((\<lambda>slug. case slug of None \<Rightarrow> [] | Some s \<Rightarrow> [s]) \<circ> Some) xs) = xs"
    for xs :: "string list"
    by (induction xs) simp_all
  have u: "sitemap_url d = (\<lambda>slug. ''<url><loc>''
                      @ (if slug = [] then ''https://'' @ d @ ''/''
                         else ''https://'' @ d @ ''/'' @ slug)
                      @ ''</loc><changefreq>weekly</changefreq><priority>0.8</priority></url>'')"
    for d
    by (rule ext) (simp add: sitemap_url_def Let_def)
  show ?thesis
    by (simp add: generateSitemap_def generateSitemapResponse_def plain_response_def Let_def c u)
qed

section \<open>API passthrough\<close>

lemma includes_str_sublist: "includes_str s needle \<longleftrightarrow> sublist needle s"
  by (induction s) (simp_all add: sublist_Cons_right)

lemma dispatch_api:
  assumes "req_method request \<noteq> ''OPTIONS''" and "prefix ''/api'' (pathname (req_url request))"
  shows "dispatch pf config request
           = Inr (handleApiRequests pf
                    ((req_url request)\<lparr>hostname := MY_NOTION_USERNAME @ ''.notion.site''\<rparr>) request)"
proof -
  from assms(2) obtain rest where p: "pathname (req_url request) = ''/api'' @ rest"
    by (auto simp: prefix_def)
  show ?thesis using assms(1)
    by (simp add: dispatch_def Let_def p)
qed

text \<open>
  Claim C7. The API handler issues exactly one outbound request: to the upstream address it
  is given, with method \<open>POST\<close>, the fixed content type and user agent, and the body of the
  inbound request, except that no body is sent when the path contains
  \<open>/api/v3/getPublicPageData\<close>. The router passes a request to this handler, with the
  upstream host in place of the requested one, when its hostname resolves to a
  configuration, its method is not \<open>OPTIONS\<close> and its path begins with \<open>/api\<close>.
\<close>

theorem api_passthrough_outbound:
  "snd (handleApiRequests pf notionUrl request)
     = [\<lparr>req_url = notionUrl,
         req_method = ''POST'',
         req_headers =
           [(''Content-Type'', ''application/json;charset=UTF-8''),
            (''User-Agent'', ''Mozilla/5.0 (Macintosh; Intel Mac OS X 10_15_7) AppleWebKit/537.36 (KHTML, like Gecko) Chrome/91.0.4472.124 Safari/537.36'')],
         req_body = (if sublist ''/api/v3/getPublicPageData'' (pathname notionUrl)
                     then None else req_body request)\<rparr>]
   \<and> (\<forall>config cache'.
         getDomainConfig pf cache (strip_www (hostname (req_url request))) = (Some config, cache')
         \<and> req_method request \<noteq> ''OPTIONS''
         \<and> prefix ''/api'' (pathname (req_url request))
         \<longrightarrow> fetchAndApply pf cache request
               = (handleApiRequests pf ((req_url request)\<lparr>hostname := ''faeton.notion.site''\<rparr>)
                    request, cache'))"
proof (intro conjI allI impI)
  show "snd (handleApiRequests pf notionUrl request)
     = [\<lparr>req_url = notionUrl,
         req_method = ''POST'',
         req_headers =
           [(''Content-Type'', ''application/json;charset=UTF-8''),
            (''User-Agent'', ''Mozilla/5.0 (Macintosh; Intel Mac OS X 10_15_7) AppleWebKit/537.36 (KHTML, like Gecko) Chrome/91.0.4472.124 Safari/537.36'')],
         req_body = (if sublist ''/api/v3/getPublicPageData'' (pathname notionUrl)
                     then None else req_body request)\<rparr>]"
    by (simp add: handleApiRequests_def Let_def api_requestInit_def includes_str_sublist
          split: fetch_result.splits)
next
  fix config cache'
  assume a: "getDomainConfig pf cache (strip_www (hostname (req_url request))) = (Some config, cache')
         \<and> req_method request \<noteq> ''OPTIONS''
         \<and> prefix ''/api'' (pathname (req_url request))"
  then have g: "getDomainConfig pf cache (strip_www (hostname (req_url request))) = (Some config, cache')"
    and m: "req_method request \<noteq> ''OPTIONS''" and p: "prefix ''/api'' (pathname (req_url request))"
    by simp_all
  show "fetchAndApply pf cache request
               = (handleApiRequests pf ((req_url request)\<lparr>hostname := ''faeton.notion.site''\<rparr>)
                    request, cache')"
    by (simp add: fetchAndApply_resolved[OF g] dispatch_api[OF m p] MY_NOTION_USERNAME_def)
qed

section \<open>Redirections\<close>

lemma dispatch_pages:
  assumes "req_method request \<noteq> ''OPTIONS''"
    and "pathname (req_url request) \<notin> {''/robots.txt'', ''/sitemap.xml'', ''/health'', ''/_health''}"
    and "\<not> (prefix ''/app'' (pathname (req_url request)) \<and> suffix ''.js'' (pathname (req_url request)))"
    and "\<not> prefix ''/api'' (pathname (req_url request))"
  shows "dispatch pf config request
     = (case handleSlugRedirection pf (req_url request) config of
          Inl error \<Rightarrow> Inl error
        | Inr (Some r) \<Rightarrow> Inr (r, [])
        | Inr None \<Rightarrow>
            (case handleUnknownPageRedirection (req_url request) config of
               Some r \<Rightarrow> Inr (r, [])
             | None \<Rightarrow>
                 Inr (handleHtmlContent pf
                        ((req_url request)\<lparr>hostname := MY_NOTION_USERNAME @ ''.notion.site''\<rparr>)
                        request config)))"
  using assms by (auto simp add: dispatch_def Let_def)

lemma handleSlugRedirection_own:
  assumes "SLUG_TO_PAGE config = Some m" and "map_of m slug = Some pageId" and "ToBoolean pageId"
    and "pathname u = ''/'' @ slug"
  shows "handleSlugRedirection pf u config
     = (case ToString pageId of
          None \<Rightarrow> Inl (TypeError ''Cannot convert object to primitive value'')
        | Some text \<Rightarrow>
            Inr (Some (Response_redirect
                         (if slug = [] \<or> text = [] then ''https://'' @ MY_DOMAIN config @ ''/''
                          else ''https://'' @ MY_DOMAIN config @ ''/'' @ URL_after_origin pf text)
                         301)))"
  using assms
  by (simp add: handleSlugRedirection_def Let_def js_get_def redirect_target_def
           split: option.splits)


lemma hex_path_not_special:
  assumes "notionPageIdPattern_test p"
  shows "''/'' @ p \<notin> {''/robots.txt'', ''/sitemap.xml'', ''/health'', ''/_health''}"
    and "\<not> prefix ''/app'' (''/'' @ p)" and "\<not> prefix ''/api'' (''/'' @ p)"
proof -
  from assms have l: "length p = 32" and h: "list_all is_hex_digit p"
    by (simp_all add: notionPageIdPattern_test_def)
  have d: "p \<noteq> q" if "length q \<noteq> 32" for q
    using l that by blast
  have "p \<noteq> ''robots.txt''" "p \<noteq> ''sitemap.xml''" "p \<noteq> ''health''" "p \<noteq> ''_health''"
    by (rule d, simp)+
  then show "''/'' @ p \<notin> {''/robots.txt'', ''/sitemap.xml'', ''/health'', ''/_health''}"
    by simp
  have np: "\<not> is_hex_digit CHR ''p''" by (simp add: is_hex_digit_def)
  show "\<not> prefix ''/app'' (''/'' @ p)"
  proof
    assume "prefix ''/app'' (''/'' @ p)"
    then obtain r where "p = ''app'' @ r" by (auto simp: prefix_def)
    with h np show False by simp
  qed
  show "\<not> prefix ''/api'' (''/'' @ p)"
  proof
    assume "prefix ''/api'' (''/'' @ p)"
    then obtain r where "p = ''api'' @ r" by (auto simp: prefix_def)
    with h np show False by simp
  qed
qed

lemma Object_prototype_hex:
  assumes "length p = 32"
  shows "Object_prototype p = None"
proof -
  have d: "p \<noteq> q" if "length q \<noteq> 32" for q
    using assms that by blast
  have "p \<noteq> ''constructor''" "p \<noteq> ''__proto__''" "p \<noteq> ''__defineGetter__''"
    "p \<noteq> ''__defineSetter__''" "p \<noteq> ''hasOwnProperty''" "p \<noteq> ''__lookupGetter__''"
    "p \<noteq> ''__lookupSetter__''" "p \<noteq> ''isPrototypeOf''" "p \<noteq> ''propertyIsEnumerable''"
    "p \<noteq> ''toString''" "p \<noteq> ''valueOf''" "p \<noteq> ''toLocaleString''"
    by (rule d, simp)+
  then show ?thesis
    by (simp add: Object_prototype_def)
qed

lemma js_get_hex: "length p = 32 \<Longrightarrow> js_get m p = map_of m p"
  by (simp add: js_get_def Object_prototype_hex split: option.splits)

lemma status_handleHtmlContent:
  "status (fst (handleHtmlContent pf u request config)) \<noteq> 301"
  by (auto simp: handleHtmlContent_def Let_def applyHtmlEnhancements_def ok_def
           split: fetch_result.splits)

lemma status_handleCorsPreflightRequest:
  "status (handleCorsPreflightRequest request) \<noteq> 301"
  by (simp add: handleCorsPreflightRequest_def Let_def)

lemma headers_get_Location: "headers_get [(''Location'', target)] ''Location'' = Some target"
  by (simp add: headers_get_def)

lemma dispatch_hex:
  assumes "req_method request \<noteq> ''OPTIONS''" and "pathname (req_url request) = ''/'' @ p"
    and "notionPageIdPattern_test p"
  shows "dispatch pf config request
     = (case handleSlugRedirection pf (req_url request) config of
          Inl error \<Rightarrow> Inl error
        | Inr (Some r) \<Rightarrow> Inr (r, [])
        | Inr None \<Rightarrow>
            (case handleUnknownPageRedirection (req_url request) config of
               Some r \<Rightarrow> Inr (r, [])
             | None \<Rightarrow>
                 Inr (handleHtmlContent pf
                        ((req_url request)\<lparr>hostname := MY_NOTION_USERNAME @ ''.notion.site''\<rparr>)
                        request config)))"
  using hex_path_not_special[OF assms(3)] assms(1)
  by (intro dispatch_pages) (simp_all add: assms(2))

lemma unknown_page_redirect:
  assumes "getDomainConfig pf cache (strip_www (hostname (req_url request))) = (Some config, cache')"
    and "req_method request \<noteq> ''OPTIONS''" and "pathname (req_url request) = ''/'' @ p"
    and "notionPageIdPattern_test p" and "p \<notin> set (pages config)"
    and "SLUG_TO_PAGE config = Some m" and "p \<notin> fst ` set m"
  shows "fetchAndApply pf cache request
           = ((Response_redirect (''https://'' @ MY_DOMAIN config @ ''/'') 301, []), cache')"
proof -
  from assms(4) have l: "length p = 32" by (simp add: notionPageIdPattern_test_def)
  from assms(7) have "map_of m p = None" by (simp add: map_of_eq_None_iff)
  then have s: "handleSlugRedirection pf (req_url request) config = Inr None"
    by (simp add: handleSlugRedirection_def Let_def assms(3,6) js_get_hex[OF l])
  have u: "handleUnknownPageRedirection (req_url request) config
             = Some (Response_redirect (''https://'' @ MY_DOMAIN config @ ''/'') 301)"
    by (simp add: handleUnknownPageRedirection_def Let_def assms(3,4,5))
  show ?thesis
    by (simp add: fetchAndApply_resolved[OF assms(1)] dispatch_hex[OF assms(2,3,4)] s u)
qed

lemma known_page_root_iff:
  assumes "getDomainConfig pf cache (strip_www (hostname (req_url request))) = (Some config, cache')"
    and "pathname (req_url request) = ''/'' @ p"
    and "notionPageIdPattern_test p" and "p \<in> set (pages config)"
  shows "redirects_to_root config (fst (fst (fetchAndApply pf cache request)))
     \<longleftrightarrow> req_method request \<noteq> ''OPTIONS''
         \<and> (\<exists>m v text. SLUG_TO_PAGE config = Some m \<and> map_of m p = Some v \<and> ToBoolean v
                \<and> ToString v = Some text \<and> (text = [] \<or> URL_after_origin pf text = []))"
proof (cases "req_method request = ''OPTIONS''")
  case True
  then show ?thesis
    by (simp add: fetchAndApply_resolved[OF assms(1)] dispatch_options redirects_to_root_def
          status_handleCorsPreflightRequest)
next
  case False
  from assms(3) have l: "length p = 32" by (simp add: notionPageIdPattern_test_def)
  then have ne: "p \<noteq> []" by auto
  note d = dispatch_hex[OF False assms(2,3)]
  have u: "handleUnknownPageRedirection (req_url request) config = None"
    by (simp add: handleUnknownPageRedirection_def Let_def assms(2,4))
  have served: "\<not> redirects_to_root config (fst (fst (fetchAndApply pf cache request)))"
    if "handleSlugRedirection pf (req_url request) config = Inr None"
    using that
    by (simp add: fetchAndApply_resolved[OF assms(1)] d u redirects_to_root_def
          status_handleHtmlContent)
  have thrown: "\<not> redirects_to_root config (fst (fst (fetchAndApply pf cache request)))"
    if "handleSlugRedirection pf (req_url request) config = Inl (TypeError message)" for message
    using that
    by (simp add: fetchAndApply_resolved[OF assms(1)] d redirects_to_root_def plain_response_def)
  show ?thesis
  proof (cases "SLUG_TO_PAGE config")
    case None
    then have "\<exists>message. handleSlugRedirection pf (req_url request) config = Inl (TypeError message)"
      by (simp add: handleSlugRedirection_def Let_def)
    with thrown None False show ?thesis by auto
  next
    case (Some m)
    note m = this
    show ?thesis
    proof (cases "map_of m p")
      case None
      then have "handleSlugRedirection pf (req_url request) config = Inr None"
        by (simp add: handleSlugRedirection_def Let_def assms(2) m js_get_hex[OF l])
      with served m None show ?thesis by simp
    next
      case (Some v)
      note v = this
      show ?thesis
      proof (cases "ToBoolean v")
        case False
        then have "handleSlugRedirection pf (req_url request) config = Inr None"
          by (simp add: handleSlugRedirection_def Let_def assms(2) m v js_get_hex[OF l])
        with served m v False show ?thesis by simp
      next
        case True
        note t = this
        note h = handleSlugRedirection_own[OF m v t assms(2), of pf]
        show ?thesis
        proof (cases "ToString v")
          case None
          with h have "handleSlugRedirection pf (req_url request) config
                         = Inl (TypeError ''Cannot convert object to primitive value'')"
            by simp
          with thrown m v None show ?thesis by simp
        next
          case (Some tx)
          with h ne have "handleSlugRedirection pf (req_url request) config
              = Inr (Some (Response_redirect
                             (if tx = [] then ''https://'' @ MY_DOMAIN config @ ''/''
                              else ''https://'' @ MY_DOMAIN config @ ''/''
                                   @ URL_after_origin pf tx) 301))"
            by simp
          then have "redirects_to_root config (fst (fst (fetchAndApply pf cache request)))
                 \<longleftrightarrow> tx = [] \<or> URL_after_origin pf tx = []"
            using \<open>req_method request \<noteq> ''OPTIONS''\<close>
            by (simp add: fetchAndApply_resolved[OF assms(1)] d redirects_to_root_def
                  headers_get_Location Response_redirect_def)
          with m v t Some \<open>req_method request \<noteq> ''OPTIONS''\<close> show ?thesis by simp
        qed
      qed
    qed
  qed
qed

text \<open>
  Claim C4, as the code has it. Take a request whose hostname resolves to a configuration and
  whose path without the leading slash is a 32-hex-digit text \<open>p\<close>. If \<open>p\<close> is in \<open>pages\<close>,
  the answer is the 301 to the root of the domain in one case only: the method is not
  \<open>OPTIONS\<close> and \<open>p\<close> is also a key of \<open>SLUG_TO_PAGE\<close>, mapped to a truthy value whose text
  is empty or is a text of which the URL parser leaves nothing (a single dot, say). If \<open>p\<close>
  is not in \<open>pages\<close>, \<open>SLUG_TO_PAGE\<close> is present and does not have the key \<open>p\<close>, and the
  method is not \<open>OPTIONS\<close>, the answer is the 301 to \<open>https://<domain>/\<close>.
\<close>

theorem page_id_paths:
  assumes "getDomainConfig pf cache (strip_www (hostname (req_url request))) = (Some config, cache')"
    and "pathname (req_url request) = ''/'' @ p"
    and "notionPageIdPattern_test p"
  shows "(p \<in> set (pages config)
          \<longrightarrow> (redirects_to_root config (fst (fst (fetchAndApply pf cache request)))
               \<longleftrightarrow> req_method request \<noteq> ''OPTIONS''
                   \<and> (\<exists>m v text. SLUG_TO_PAGE config = Some m \<and> map_of m p = Some v
                          \<and> ToBoolean v \<and> ToString v = Some text
                          \<and> (text = [] \<or> URL_after_origin pf text = []))))
       \<and> (\<forall>m. p \<notin> set (pages config) \<and> SLUG_TO_PAGE config = Some m \<and> p \<notin> fst ` set m
               \<and> req_method request \<noteq> ''OPTIONS''
          \<longrightarrow> fetchAndApply pf cache request
                = ((\<lparr>status = 301,
                     res_headers = [(''Location'', ''https://'' @ MY_DOMAIN config @ ''/'')],
                     res_body = None\<rparr>, []), cache'))"
proof (intro conjI impI allI)
  assume "p \<in> set (pages config)"
  then show "redirects_to_root config (fst (fst (fetchAndApply pf cache request)))
               \<longleftrightarrow> req_method request \<noteq> ''OPTIONS''
                   \<and> (\<exists>m v text. SLUG_TO_PAGE config = Some m \<and> map_of m p = Some v
                          \<and> ToBoolean v \<and> ToString v = Some text
                          \<and> (text = [] \<or> URL_after_origin pf text = []))"
    by (rule known_page_root_iff[OF assms])
next
  fix m
  assume "p \<notin> set (pages config) \<and> SLUG_TO_PAGE config = Some m \<and> p \<notin> fst ` set m
               \<and> req_method request \<noteq> ''OPTIONS''"
  then show "fetchAndApply pf cache request
                = ((\<lparr>status = 301,
                     res_headers = [(''Location'', ''https://'' @ MY_DOMAIN config @ ''/'')],
                     res_body = None\<rparr>, []), cache')"
    using unknown_page_redirect[OF assms(1) _ assms(2,3), of m]
    by (simp add: Response_redirect_def)
qed


section \<open>The sample configurations, processed\<close>

lemma foldl_add_entry_frame:
  "MY_DOMAIN (foldl add_entry c es) = MY_DOMAIN c
   \<and> SLUG_TO_PAGE (foldl add_entry c es) = SLUG_TO_PAGE c"
  by (induction es arbitrary: c) (simp_all add: add_entry_fields)

lemma processConfigurationObject_frame:
  "MY_DOMAIN (processConfigurationObject c) = MY_DOMAIN c"
  "SLUG_TO_PAGE (processConfigurationObject c) = SLUG_TO_PAGE c"
  by (simp_all add: processConfigurationObject_def foldl_add_entry_frame)

lemmas process_defs = processConfigurationObject_def add_entry_def js_set_def entries_defs
  raw_config_def page_a_def page_b_def page_c_def page_A_def

lemma pages_sample:
  "pages (processConfigurationObject (raw_config (Some sample_map)\<lparr>MY_DOMAIN := d\<rparr>))
     = [page_a, page_b]"
  by (simp add: process_defs sample_map_def)

lemma pages_edge:
  "pages (processConfigurationObject (raw_config (Some edge_map)\<lparr>MY_DOMAIN := d\<rparr>))
     = [page_a, page_b, page_c, ''a b'']"
  by (simp add: process_defs edge_map_def)

lemma pages_shadow:
  "pages (processConfigurationObject (raw_config (Some shadow_map)\<lparr>MY_DOMAIN := d\<rparr>))
     = [page_a]"
  by (simp add: process_defs shadow_map_def)

lemma pages_dot:
  "pages (processConfigurationObject (raw_config (Some dot_map)\<lparr>MY_DOMAIN := d\<rparr>))
     = [page_a, ''.'']"
  by (simp add: process_defs dot_map_def)

lemma pages_both_case:
  "pages (processConfigurationObject (raw_config (Some both_case_map)\<lparr>MY_DOMAIN := d\<rparr>))
     = [page_a, page_A]"
  by (simp add: process_defs both_case_map_def)

lemma pages_case_slug:
  "pages (processConfigurationObject (raw_config (Some case_slug_map)\<lparr>MY_DOMAIN := d\<rparr>))
     = [page_a, page_b]"
  by (simp add: process_defs case_slug_map_def)

lemma pages_none:
  "pages (processConfigurationObject (raw_config None\<lparr>MY_DOMAIN := d\<rparr>)) = []"
  by (simp add: process_defs)

lemma sample_frame:
  "MY_DOMAIN (processConfigurationObject (raw_config m\<lparr>MY_DOMAIN := d\<rparr>)) = d"
  "SLUG_TO_PAGE (processConfigurationObject (raw_config m\<lparr>MY_DOMAIN := d\<rparr>)) = m"
  by (simp_all add: processConfigurationObject_frame raw_config_def)

lemma sample_pattern:
  "notionPageIdPattern_test page_a" "notionPageIdPattern_test page_b"
  "notionPageIdPattern_test page_c" "notionPageIdPattern_test page_A"
  by (simp_all add: notionPageIdPattern_test_def is_hex_digit_def
        page_a_def page_b_def page_c_def page_A_def)


lemma sample_fetch:
  "fetchAndApply (sample_platform raw) Map.empty (sample_request ''ex.com'' meth path hs)
     = (case dispatch (sample_platform raw)
               (processConfigurationObject (raw\<lparr>MY_DOMAIN := ''ex.com''\<rparr>))
               (sample_request ''ex.com'' meth path hs) of
          Inl (TypeError message) \<Rightarrow>
            ((plain_response 500 [(''Content-Type'', ''text/plain'')]
                (''Internal Server Error: '' @ message), []),
             [''ex.com'' \<mapsto> Cached (processConfigurationObject (raw\<lparr>MY_DOMAIN := ''ex.com''\<rparr>))])
        | Inr result \<Rightarrow>
            (result, [''ex.com'' \<mapsto> Cached (processConfigurationObject (raw\<lparr>MY_DOMAIN := ''ex.com''\<rparr>))]))"
proof -
  have "getDomainConfig (sample_platform raw) Map.empty
          (strip_www (hostname (req_url (sample_request ''ex.com'' meth path hs))))
        = (Some (processConfigurationObject (raw\<lparr>MY_DOMAIN := ''ex.com''\<rparr>)),
           [''ex.com'' \<mapsto> Cached (processConfigurationObject (raw\<lparr>MY_DOMAIN := ''ex.com''\<rparr>))])"
    by (simp add: sample_request_def strip_www_def sample_resolution)
  then show ?thesis
    by (rule fetchAndApply_resolved)
qed

lemma sample_URL: "URL_after_origin (sample_platform raw) = sample_URL_after_origin"
  by (simp add: sample_platform_def)

lemmas route_defs = dispatch_def Let_def sample_request_def handleSlugRedirection_def js_get_def
  Object_prototype_def handleUnknownPageRedirection_def sample_frame Response_redirect_def
  plain_response_def redirect_target_def sample_URL sample_URL_after_origin_def




text \<open>
  The theorem at the example configuration, for a configured page id and a foreign one, and
  at a configuration in which a page id is also a slug, mapped to a single dot.
\<close>

theorem page_id_paths_witness:
  "notionPageIdPattern_test page_a
   \<and> page_a \<in> set (pages (processConfigurationObject
                             (raw_config (Some sample_map)\<lparr>MY_DOMAIN := ''ex.com''\<rparr>)))
   \<and> map_of sample_map page_a = None
   \<and> \<not> redirects_to_root
          (processConfigurationObject (raw_config (Some sample_map)\<lparr>MY_DOMAIN := ''ex.com''\<rparr>))
          (fst (fst (fetchAndApply (sample_platform (raw_config (Some sample_map))) Map.empty
                       (sample_request ''ex.com'' ''GET'' (''/'' @ page_a) []))))
   \<and> page_a \<in> set (pages (processConfigurationObject
                             (raw_config (Some dot_map)\<lparr>MY_DOMAIN := ''ex.com''\<rparr>)))
   \<and> map_of dot_map page_a = Some (JString ''.'')
   \<and> URL_after_origin (sample_platform (raw_config (Some dot_map))) ''.'' = []
   \<and> redirects_to_root
          (processConfigurationObject (raw_config (Some dot_map)\<lparr>MY_DOMAIN := ''ex.com''\<rparr>))
          (fst (fst (fetchAndApply (sample_platform (raw_config (Some dot_map))) Map.empty
                       (sample_request ''ex.com'' ''GET'' (''/'' @ page_a) []))))
   \<and> notionPageIdPattern_test page_c
   \<and> page_c \<notin> set (pages (processConfigurationObject
                             (raw_config (Some sample_map)\<lparr>MY_DOMAIN := ''ex.com''\<rparr>)))
   \<and> page_c \<notin> fst ` set sample_map
   \<and> fst (fst (fetchAndApply (sample_platform (raw_config (Some sample_map))) Map.empty
                 (sample_request ''ex.com'' ''GET'' (''/'' @ page_c) [])))
       = \<lparr>status = 301, res_headers = [(''Location'', ''https://ex.com/'')], res_body = None\<rparr>"
proof -
  let ?raw = "raw_config (Some sample_map)"
  let ?pf = "sample_platform ?raw"
  let ?pc = "processConfigurationObject (?raw\<lparr>MY_DOMAIN := ''ex.com''\<rparr>)"
  let ?raw' = "raw_config (Some dot_map)"
  let ?pf' = "sample_platform ?raw'"
  let ?pc' = "processConfigurationObject (?raw'\<lparr>MY_DOMAIN := ''ex.com''\<rparr>)"
  let ?r1 = "sample_request ''ex.com'' ''GET'' (''/'' @ page_a) []"
  let ?r2 = "sample_request ''ex.com'' ''GET'' (''/'' @ page_c) []"
  have g1: "getDomainConfig ?pf Map.empty (strip_www (hostname (req_url ?r1)))
             = (Some ?pc, [''ex.com'' \<mapsto> Cached ?pc])"
    and g2: "getDomainConfig ?pf Map.empty (strip_www (hostname (req_url ?r2)))
             = (Some ?pc, [''ex.com'' \<mapsto> Cached ?pc])"
    and g3: "getDomainConfig ?pf' Map.empty (strip_www (hostname (req_url ?r1)))
             = (Some ?pc', [''ex.com'' \<mapsto> Cached ?pc'])"
    by (simp_all add: sample_request_def strip_www_def sample_resolution)
  have p1: "pathname (req_url ?r1) = ''/'' @ page_a" and p2: "pathname (req_url ?r2) = ''/'' @ page_c"
    and m1: "req_method ?r1 \<noteq> ''OPTIONS''" and m2: "req_method ?r2 \<noteq> ''OPTIONS''"
    by (simp_all add: sample_request_def)
  have i1: "page_a \<in> set (pages ?pc)" and i2: "page_c \<notin> set (pages ?pc)"
    and i3: "page_a \<in> set (pages ?pc')"
    by (simp_all add: pages_sample pages_dot page_a_def page_b_def page_c_def)
  have k1: "map_of sample_map page_a = None" and k2: "page_c \<notin> fst ` set sample_map"
    and k3: "map_of dot_map page_a = Some (JString ''.'')"
    by (simp_all add: sample_map_def dot_map_def page_a_def page_c_def)
  have s: "SLUG_TO_PAGE ?pc = Some sample_map" and d: "MY_DOMAIN ?pc = ''ex.com''"
    and s': "SLUG_TO_PAGE ?pc' = Some dot_map"
    by (simp_all add: sample_frame)
  have u: "URL_after_origin ?pf' ''.'' = []"
    by (simp add: sample_URL sample_URL_after_origin_def)
  note A = page_id_paths [OF g1 p1 sample_pattern(1)]
  note B = page_id_paths [OF g2 p2 sample_pattern(3)]
  note C = page_id_paths [OF g3 p1 sample_pattern(1)]
  from k1 s have "\<not> (\<exists>m v text. SLUG_TO_PAGE ?pc = Some m \<and> map_of m page_a = Some v
                       \<and> ToBoolean v \<and> ToString v = Some text
                       \<and> (text = [] \<or> URL_after_origin ?pf text = []))"
    by simp
  with A[THEN conjunct1] i1
  have a: "\<not> redirects_to_root ?pc (fst (fst (fetchAndApply ?pf Map.empty ?r1)))"
    by blast
  from k3 s' u have "\<exists>m v text. SLUG_TO_PAGE ?pc' = Some m \<and> map_of m page_a = Some v
                       \<and> ToBoolean v \<and> ToString v = Some text
                       \<and> (text = [] \<or> URL_after_origin ?pf' text = [])"
    by simp
  with C[THEN conjunct1] i3 m1
  have c: "redirects_to_root ?pc' (fst (fst (fetchAndApply ?pf' Map.empty ?r1)))"
    by blast
  from B[THEN conjunct2] i2 s k2 m2 have "fetchAndApply ?pf Map.empty ?r2
      = ((\<lparr>status = 301, res_headers = [(''Location'', ''https://'' @ MY_DOMAIN ?pc @ ''/'')],
           res_body = None\<rparr>, []), [''ex.com'' \<mapsto> Cached ?pc])"
    by blast
  then have b: "fst (fst (fetchAndApply ?pf Map.empty ?r2))
       = \<lparr>status = 301, res_headers = [(''Location'', ''https://ex.com/'')], res_body = None\<rparr>"
    by (simp add: d)
  from sample_pattern(1) i1 k1 a i3 k3 u c sample_pattern(3) i2 k2 b show ?thesis by blast
qed

text \<open>
  Where C4 as written fails: a page id in \<open>pages\<close> that is also a slug is sent to the root
  when the slug's value is the empty array, and when it is a single dot; a foreign page id
  requested with \<open>OPTIONS\<close> gets the preflight's 405; and without \<open>SLUG_TO_PAGE\<close> the slug
  rule throws, which ends in a 500.
\<close>

theorem page_id_paths_counterexample:
  "notionPageIdPattern_test page_a
   \<and> page_a \<in> set (pages (processConfigurationObject
                             (raw_config (Some shadow_map)\<lparr>MY_DOMAIN := ''ex.com''\<rparr>)))
   \<and> fst (fst (fetchAndApply (sample_platform (raw_config (Some shadow_map))) Map.empty
                 (sample_request ''ex.com'' ''GET'' (''/'' @ page_a) [])))
       = \<lparr>status = 301, res_headers = [(''Location'', ''https://ex.com/'')], res_body = None\<rparr>
   \<and> page_a \<in> set (pages (processConfigurationObject
                             (raw_config (Some dot_map)\<lparr>MY_DOMAIN := ''ex.com''\<rparr>)))
   \<and> fst (fst (fetchAndApply (sample_platform (raw_config (Some dot_map))) Map.empty
                 (sample_request ''ex.com'' ''GET'' (''/'' @ page_a) [])))
       = \<lparr>status = 301, res_headers = [(''Location'', ''https://ex.com/'')], res_body = None\<rparr>
   \<and> notionPageIdPattern_test page_c
   \<and> page_c \<notin> set (pages (processConfigurationObject
                             (raw_config (Some sample_map)\<lparr>MY_DOMAIN := ''ex.com''\<rparr>)))
   \<and> page_c \<notin> fst ` set sample_map
   \<and> fst (fst (fetchAndApply (sample_platform (raw_config (Some sample_map))) Map.empty
                 (sample_request ''ex.com'' ''OPTIONS'' (''/'' @ page_c) [])))
       = \<lparr>status = 405, res_headers = [(''Allow'', ''GET, HEAD, POST, PUT, OPTIONS'')],
          res_body = None\<rparr>
   \<and> pages (processConfigurationObject (raw_config None\<lparr>MY_DOMAIN := ''ex.com''\<rparr>)) = []
   \<and> status (fst (fst (fetchAndApply (sample_platform (raw_config None)) Map.empty
                 (sample_request ''ex.com'' ''GET'' (''/'' @ page_c) [])))) = 500"
proof -
  have a: "page_a \<in> set (pages (processConfigurationObject
                             (raw_config (Some shadow_map)\<lparr>MY_DOMAIN := ''ex.com''\<rparr>)))"
    by (simp add: pages_shadow)
  have b: "fst (fst (fetchAndApply (sample_platform (raw_config (Some shadow_map))) Map.empty
                 (sample_request ''ex.com'' ''GET'' (''/'' @ page_a) [])))
       = \<lparr>status = 301, res_headers = [(''Location'', ''https://ex.com/'')], res_body = None\<rparr>"
    unfolding sample_fetch
    by (simp add: route_defs shadow_map_def page_a_def)
  have a': "page_a \<in> set (pages (processConfigurationObject
                             (raw_config (Some dot_map)\<lparr>MY_DOMAIN := ''ex.com''\<rparr>)))"
    by (simp add: pages_dot)
  have b': "fst (fst (fetchAndApply (sample_platform (raw_config (Some dot_map))) Map.empty
                 (sample_request ''ex.com'' ''GET'' (''/'' @ page_a) [])))
       = \<lparr>status = 301, res_headers = [(''Location'', ''https://ex.com/'')], res_body = None\<rparr>"
    unfolding sample_fetch
    by (simp add: route_defs dot_map_def page_a_def)
  have c: "page_c \<notin> set (pages (processConfigurationObject
                             (raw_config (Some sample_map)\<lparr>MY_DOMAIN := ''ex.com''\<rparr>)))"
    by (simp add: pages_sample page_a_def page_b_def page_c_def)
  have d: "page_c \<notin> fst ` set sample_map"
    by (simp add: sample_map_def page_c_def)
  have e: "fst (fst (fetchAndApply (sample_platform (raw_config (Some sample_map))) Map.empty
                 (sample_request ''ex.com'' ''OPTIONS'' (''/'' @ page_c) [])))
       = \<lparr>status = 405, res_headers = [(''Allow'', ''GET, HEAD, POST, PUT, OPTIONS'')],
          res_body = None\<rparr>"
    unfolding sample_fetch
    by (simp add: route_defs handleCorsPreflightRequest_def headers_get_Nil truthy_def)
  have f: "status (fst (fst (fetchAndApply (sample_platform (raw_config None)) Map.empty
                 (sample_request ''ex.com'' ''GET'' (''/'' @ page_c) [])))) = 500"
    unfolding sample_fetch
    by (simp add: route_defs page_c_def)
  from sample_pattern(1) a b a' b' sample_pattern(3) c d e pages_none f show ?thesis by blast
qed

section \<open>The root slug\<close>

text \<open>
  Claim C5 at the root slug. With the root slug configured, \<open>GET /\<close> is answered with a 301
  whose target is \<open>https://ex.com/\<close>, the address that was requested; the same request,
  sent again with the cache the first one left, gets the same 301.
\<close>

theorem root_slug_redirects_to_itself:
  "map_of sample_map [] = Some (JString page_a)
   \<and> fetchAndApply (sample_platform (raw_config (Some sample_map))) Map.empty
        (sample_request ''ex.com'' ''GET'' ''/'' [])
       = ((\<lparr>status = 301, res_headers = [(''Location'', ''https://ex.com/'')], res_body = None\<rparr>,
           []),
          [''ex.com'' \<mapsto> Cached (processConfigurationObject
                                    (raw_config (Some sample_map)\<lparr>MY_DOMAIN := ''ex.com''\<rparr>))])
   \<and> fetchAndApply (sample_platform (raw_config (Some sample_map)))
        [''ex.com'' \<mapsto> Cached (processConfigurationObject
                                  (raw_config (Some sample_map)\<lparr>MY_DOMAIN := ''ex.com''\<rparr>))]
        (sample_request ''ex.com'' ''GET'' ''/'' [])
       = ((\<lparr>status = 301, res_headers = [(''Location'', ''https://ex.com/'')], res_body = None\<rparr>,
           []),
          [''ex.com'' \<mapsto> Cached (processConfigurationObject
                                    (raw_config (Some sample_map)\<lparr>MY_DOMAIN := ''ex.com''\<rparr>))])"
proof -
  let ?raw = "raw_config (Some sample_map)"
  let ?pf = "sample_platform ?raw"
  let ?pc = "processConfigurationObject (?raw\<lparr>MY_DOMAIN := ''ex.com''\<rparr>)"
  let ?r = "sample_request ''ex.com'' ''GET'' ''/'' []"
  have l: "map_of sample_map [] = Some (JString page_a)"
    by (simp add: sample_map_def)
  have d: "dispatch ?pf ?pc ?r
     = Inr (\<lparr>status = 301, res_headers = [(''Location'', ''https://ex.com/'')], res_body = None\<rparr>, [])"
    by (simp add: route_defs sample_map_def page_a_def)
  have h: "strip_www (hostname (req_url ?r)) = ''ex.com''"
    by (simp add: sample_request_def strip_www_def)
  have g1: "getDomainConfig ?pf Map.empty (strip_www (hostname (req_url ?r)))
              = (Some ?pc, [''ex.com'' \<mapsto> Cached ?pc])"
    by (simp add: h sample_resolution)
  have g2: "getDomainConfig ?pf [''ex.com'' \<mapsto> Cached ?pc] (strip_www (hostname (req_url ?r)))
              = (Some ?pc, [''ex.com'' \<mapsto> Cached ?pc])"
    unfolding h by (rule getDomainConfig_hit) (simp add: strip_www_def)
  from l fetchAndApply_resolved[OF g1] fetchAndApply_resolved[OF g2] d show ?thesis
    by simp
qed


section \<open>The API passthrough at sample requests\<close>

text \<open>
  The theorem at the page-data endpoint and at another endpoint, both with a body.
\<close>

theorem api_passthrough_outbound_witness:
  "prefix ''/api'' (pathname (req_url ((sample_request ''ex.com'' ''POST''
                                         ''/api/v3/getPublicPageData'' [])\<lparr>req_body := Some ''{}''\<rparr>)))
   \<and> map req_method
         (snd (fst (fetchAndApply (sample_platform (raw_config (Some sample_map))) Map.empty
                 ((sample_request ''ex.com'' ''POST'' ''/api/v3/getPublicPageData'' [])
                    \<lparr>req_body := Some ''{}''\<rparr>)))) = [''POST'']
   \<and> map req_body
         (snd (fst (fetchAndApply (sample_platform (raw_config (Some sample_map))) Map.empty
                 ((sample_request ''ex.com'' ''POST'' ''/api/v3/getPublicPageData'' [])
                    \<lparr>req_body := Some ''{}''\<rparr>)))) = [None]
   \<and> map req_body
         (snd (fst (fetchAndApply (sample_platform (raw_config (Some sample_map))) Map.empty
                 ((sample_request ''ex.com'' ''GET'' ''/api/v3/syncRecordValues'' [])
                    \<lparr>req_body := Some ''{}''\<rparr>)))) = [Some ''{}'']
   \<and> map (\<lambda>r. hostname (req_url r))
         (snd (fst (fetchAndApply (sample_platform (raw_config (Some sample_map))) Map.empty
                 ((sample_request ''ex.com'' ''GET'' ''/api/v3/syncRecordValues'' [])
                    \<lparr>req_body := Some ''{}''\<rparr>)))) = [''faeton.notion.site'']"
proof -
  let ?raw = "raw_config (Some sample_map)"
  let ?pf = "sample_platform ?raw"
  let ?pc = "processConfigurationObject (?raw\<lparr>MY_DOMAIN := ''ex.com''\<rparr>)"
  let ?r1 = "(sample_request ''ex.com'' ''POST'' ''/api/v3/getPublicPageData'' [])\<lparr>req_body := Some ''{}''\<rparr>"
  let ?r2 = "(sample_request ''ex.com'' ''GET'' ''/api/v3/syncRecordValues'' [])\<lparr>req_body := Some ''{}''\<rparr>"
  have g1: "getDomainConfig ?pf Map.empty (strip_www (hostname (req_url ?r1)))
             = (Some ?pc, [''ex.com'' \<mapsto> Cached ?pc])"
    and g2: "getDomainConfig ?pf Map.empty (strip_www (hostname (req_url ?r2)))
             = (Some ?pc, [''ex.com'' \<mapsto> Cached ?pc])"
    by (simp_all add: sample_request_def strip_www_def sample_resolution)
  have m1: "req_method ?r1 \<noteq> ''OPTIONS''" and m2: "req_method ?r2 \<noteq> ''OPTIONS''"
    and a1: "prefix ''/api'' (pathname (req_url ?r1))"
    and a2: "prefix ''/api'' (pathname (req_url ?r2))"
    by (simp_all add: sample_request_def)
  have s1: "sublist ''/api/v3/getPublicPageData'' (pathname (req_url ?r1))"
    and s2: "\<not> sublist ''/api/v3/getPublicPageData'' (pathname (req_url ?r2))"
    by (simp_all add: sample_request_def includes_str_sublist[symmetric])
  let ?u1 = "(req_url ?r1)\<lparr>hostname := ''faeton.notion.site''\<rparr>"
  let ?u2 = "(req_url ?r2)\<lparr>hostname := ''faeton.notion.site''\<rparr>"
  note A = api_passthrough_outbound [of ?pf ?u1 ?r1 Map.empty]
  note B = api_passthrough_outbound [of ?pf ?u2 ?r2 Map.empty]
  from A g1 m1 a1 have f1: "fetchAndApply ?pf Map.empty ?r1
      = (handleApiRequests ?pf ?u1 ?r1, [''ex.com'' \<mapsto> Cached ?pc])"
    by blast
  from B g2 m2 a2 have f2: "fetchAndApply ?pf Map.empty ?r2
      = (handleApiRequests ?pf ?u2 ?r2, [''ex.com'' \<mapsto> Cached ?pc])"
    by blast
  have s1': "sublist ''/api/v3/getPublicPageData'' (pathname ?u1)"
    and s2': "\<not> sublist ''/api/v3/getPublicPageData'' (pathname ?u2)"
    using s1 s2 by simp_all
  have a: "map req_method (snd (fst (fetchAndApply ?pf Map.empty ?r1))) = [''POST'']
      \<and> map req_body (snd (fst (fetchAndApply ?pf Map.empty ?r1))) = [None]"
    using A[THEN conjunct1] s1' unfolding f1 by simp
  have b: "map req_body (snd (fst (fetchAndApply ?pf Map.empty ?r2))) = [Some ''{}'']
      \<and> map (\<lambda>r. hostname (req_url r)) (snd (fst (fetchAndApply ?pf Map.empty ?r2)))
          = [''faeton.notion.site'']"
    using B[THEN conjunct1] s2' unfolding f2 by (simp add: sample_request_def)
  from a1 a b show ?thesis by simp
qed

section \<open>Letter case of a page id\<close>

lemma to_lower_hex: "is_hex_digit c \<longleftrightarrow> to_lower c \<in> set ''0123456789abcdef''"
  by (auto simp: is_hex_digit_def to_lower_def split: if_splits)

lemma case_variant_pattern:
  assumes "map to_lower v = map to_lower p" and "notionPageIdPattern_test p"
  shows "notionPageIdPattern_test v"
proof -
  from assms(1) have l: "length v = length p"
    by (metis length_map)
  have "list_all is_hex_digit xs \<longleftrightarrow> list_all (\<lambda>c. c \<in> set ''0123456789abcdef'') (map to_lower xs)"
    for xs
    by (induction xs) (simp_all add: to_lower_hex del: set_simps)
  with assms l show ?thesis
    by (simp add: notionPageIdPattern_test_def)
qed

text \<open>
  Claim C10, as the code has it. Let \<open>p\<close> be a 32-hex-digit page id in \<open>pages\<close> and \<open>v\<close> the
  same text in a different letter case, where \<open>v\<close> is itself neither in \<open>pages\<close> nor a key of
  \<open>SLUG_TO_PAGE\<close>. A request for \<open>/v\<close> whose method is not \<open>OPTIONS\<close> passes the pattern
  test, is turned into the 301 to the root of the domain by the unknown-page rule, and that
  301 is what the router answers.
\<close>

theorem case_variant_redirect:
  assumes "getDomainConfig pf cache (strip_www (hostname (req_url request))) = (Some config, cache')"
    and "req_method request \<noteq> ''OPTIONS''"
    and "SLUG_TO_PAGE config = Some m"
    and "p \<in> set (pages config)" and "notionPageIdPattern_test p"
    and "map to_lower v = map to_lower p" and "v \<noteq> p"
    and "v \<notin> set (pages config)" and "v \<notin> fst ` set m"
    and "pathname (req_url request) = ''/'' @ v"
  shows "notionPageIdPattern_test v
       \<and> handleUnknownPageRedirection (req_url request) config
           = Some \<lparr>status = 301,
                   res_headers = [(''Location'', ''https://'' @ MY_DOMAIN config @ ''/'')],
                   res_body = None\<rparr>
       \<and> fetchAndApply pf cache request
           = ((\<lparr>status = 301,
                res_headers = [(''Location'', ''https://'' @ MY_DOMAIN config @ ''/'')],
                res_body = None\<rparr>, []), cache')"
proof -
  have t: "notionPageIdPattern_test v"
    using assms(6,5) by (rule case_variant_pattern)
  have u: "handleUnknownPageRedirection (req_url request) config
           = Some \<lparr>status = 301,
                   res_headers = [(''Location'', ''https://'' @ MY_DOMAIN config @ ''/'')],
                   res_body = None\<rparr>"
    by (simp add: handleUnknownPageRedirection_def Let_def assms(10,8) t Response_redirect_def)
  from unknown_page_redirect[OF assms(1,2,10) t assms(8,3,9)] t u show ?thesis
    by (simp add: Response_redirect_def)
qed


lemma sample_case_variant:
  "map to_lower page_A = map to_lower page_a" "page_A \<noteq> page_a"
  by (simp_all add: page_A_def page_a_def to_lower_def)

text \<open>
  The theorem at the example configuration and the upper-case form of its first page id.
\<close>

theorem case_variant_redirect_witness:
  "page_a \<in> set (pages (processConfigurationObject
                          (raw_config (Some sample_map)\<lparr>MY_DOMAIN := ''ex.com''\<rparr>)))
   \<and> notionPageIdPattern_test page_a
   \<and> map to_lower page_A = map to_lower page_a \<and> page_A \<noteq> page_a
   \<and> page_A \<notin> set (pages (processConfigurationObject
                             (raw_config (Some sample_map)\<lparr>MY_DOMAIN := ''ex.com''\<rparr>)))
   \<and> page_A \<notin> fst ` set sample_map
   \<and> notionPageIdPattern_test page_A
   \<and> fst (fst (fetchAndApply (sample_platform (raw_config (Some sample_map))) Map.empty
                 (sample_request ''ex.com'' ''GET'' (''/'' @ page_A) [])))
       = \<lparr>status = 301, res_headers = [(''Location'', ''https://ex.com/'')], res_body = None\<rparr>"
proof -
  let ?raw = "raw_config (Some sample_map)"
  let ?pf = "sample_platform ?raw"
  let ?pc = "processConfigurationObject (?raw\<lparr>MY_DOMAIN := ''ex.com''\<rparr>)"
  let ?r = "sample_request ''ex.com'' ''GET'' (''/'' @ page_A) []"
  have g: "getDomainConfig ?pf Map.empty (strip_www (hostname (req_url ?r)))
             = (Some ?pc, [''ex.com'' \<mapsto> Cached ?pc])"
    by (simp add: sample_request_def strip_www_def sample_resolution)
  have m: "req_method ?r \<noteq> ''OPTIONS''" and pa: "pathname (req_url ?r) = ''/'' @ page_A"
    by (simp_all add: sample_request_def)
  have s: "SLUG_TO_PAGE ?pc = Some sample_map" and d: "MY_DOMAIN ?pc = ''ex.com''"
    by (simp_all add: sample_frame)
  have i1: "page_a \<in> set (pages ?pc)" and i2: "page_A \<notin> set (pages ?pc)"
    by (simp_all add: pages_sample page_a_def page_b_def page_A_def)
  have k: "page_A \<notin> fst ` set sample_map"
    by (simp add: sample_map_def page_A_def)
  note T = case_variant_redirect [OF g m s i1 sample_pattern(1) sample_case_variant i2 k pa]
  note a = T [THEN conjunct1]
  note T3 = T [THEN conjunct2, THEN conjunct2]
  from T3 have b: "fst (fst (fetchAndApply ?pf Map.empty ?r))
       = \<lparr>status = 301, res_headers = [(''Location'', ''https://ex.com/'')], res_body = None\<rparr>"
    by (simp add: d)
  from i1 sample_pattern(1) sample_case_variant i2 k a b show ?thesis by simp
qed

lemma sample_upstream:
  "handleHtmlContent (sample_platform raw) u (sample_request host meth path hs) config
     = (sample_page,
        [\<lparr>req_url = u, req_method = meth, req_headers = hs, req_body = None\<rparr>])"
  by (simp add: handleHtmlContent_def Let_def sample_platform_def sample_request_def ok_def
        sample_page_def applyHtmlEnhancements_def headers_delete_def to_lower_def)

text \<open>
  Where C10 as written fails: with both forms configured the upper-case path is in \<open>pages\<close>
  and its page is fetched from upstream; with the upper-case form as a slug the answer is the
  slug's redirect; and an \<open>OPTIONS\<close> request gets the preflight's 405.
\<close>

theorem case_variant_redirect_counterexample:
  "page_a \<in> set (pages (processConfigurationObject
                          (raw_config (Some both_case_map)\<lparr>MY_DOMAIN := ''ex.com''\<rparr>)))
   \<and> notionPageIdPattern_test page_a
   \<and> map to_lower page_A = map to_lower page_a \<and> page_A \<noteq> page_a
   \<and> page_A \<in> set (pages (processConfigurationObject
                             (raw_config (Some both_case_map)\<lparr>MY_DOMAIN := ''ex.com''\<rparr>)))
   \<and> fst (fst (fetchAndApply (sample_platform (raw_config (Some both_case_map))) Map.empty
                 (sample_request ''ex.com'' ''GET'' (''/'' @ page_A) []))) = sample_page
   \<and> page_a \<in> set (pages (processConfigurationObject
                             (raw_config (Some case_slug_map)\<lparr>MY_DOMAIN := ''ex.com''\<rparr>)))
   \<and> page_A \<notin> set (pages (processConfigurationObject
                             (raw_config (Some case_slug_map)\<lparr>MY_DOMAIN := ''ex.com''\<rparr>)))
   \<and> fst (fst (fetchAndApply (sample_platform (raw_config (Some case_slug_map))) Map.empty
                 (sample_request ''ex.com'' ''GET'' (''/'' @ page_A) [])))
       = \<lparr>status = 301,
          res_headers = [(''Location'', ''https://ex.com/b2b2b2b2b2b2b2b2b2b2b2b2b2b2b2b2'')],
          res_body = None\<rparr>
   \<and> page_A \<notin> set (pages (processConfigurationObject
                             (raw_config (Some sample_map)\<lparr>MY_DOMAIN := ''ex.com''\<rparr>)))
   \<and> fst (fst (fetchAndApply (sample_platform (raw_config (Some sample_map))) Map.empty
                 (sample_request ''ex.com'' ''OPTIONS'' (''/'' @ page_A) [])))
       = \<lparr>status = 405, res_headers = [(''Allow'', ''GET, HEAD, POST, PUT, OPTIONS'')],
          res_body = None\<rparr>"
proof -
  have a: "page_a \<in> set (pages (processConfigurationObject
                          (raw_config (Some both_case_map)\<lparr>MY_DOMAIN := ''ex.com''\<rparr>)))"
    and b: "page_A \<in> set (pages (processConfigurationObject
                             (raw_config (Some both_case_map)\<lparr>MY_DOMAIN := ''ex.com''\<rparr>)))"
    by (simp_all add: pages_both_case)
  have c: "fst (fst (fetchAndApply (sample_platform (raw_config (Some both_case_map))) Map.empty
                 (sample_request ''ex.com'' ''GET'' (''/'' @ page_A) []))) = sample_page"
  proof -
    let ?pf = "sample_platform (raw_config (Some both_case_map))"
    let ?pc = "processConfigurationObject (raw_config (Some both_case_map)\<lparr>MY_DOMAIN := ''ex.com''\<rparr>)"
    let ?r = "sample_request ''ex.com'' ''GET'' (''/'' @ page_A) []"
    have m: "req_method ?r \<noteq> ''OPTIONS''" and pa: "pathname (req_url ?r) = ''/'' @ page_A"
      by (simp_all add: sample_request_def)
    have l: "length page_A = 32" by (simp add: page_A_def)
    have k: "map_of both_case_map page_A = None"
      by (simp add: both_case_map_def page_A_def)
    have s: "handleSlugRedirection ?pf (req_url ?r) ?pc = Inr None"
      by (simp add: handleSlugRedirection_def Let_def sample_request_def sample_frame
            js_get_hex[OF l] k)
    have u: "handleUnknownPageRedirection (req_url ?r) ?pc = None"
      by (simp add: handleUnknownPageRedirection_def Let_def sample_request_def pages_both_case)
    show ?thesis
      unfolding sample_fetch dispatch_hex[OF m pa sample_pattern(4)] s u
      by (simp add: sample_upstream)
  qed
  have d: "page_a \<in> set (pages (processConfigurationObject
                             (raw_config (Some case_slug_map)\<lparr>MY_DOMAIN := ''ex.com''\<rparr>)))"
    and e: "page_A \<notin> set (pages (processConfigurationObject
                             (raw_config (Some case_slug_map)\<lparr>MY_DOMAIN := ''ex.com''\<rparr>)))"
    and g: "page_A \<notin> set (pages (processConfigurationObject
                             (raw_config (Some sample_map)\<lparr>MY_DOMAIN := ''ex.com''\<rparr>)))"
    by (simp_all add: pages_case_slug pages_sample page_a_def page_b_def page_A_def)
  have f: "fst (fst (fetchAndApply (sample_platform (raw_config (Some case_slug_map))) Map.empty
                 (sample_request ''ex.com'' ''GET'' (''/'' @ page_A) [])))
       = \<lparr>status = 301,
          res_headers = [(''Location'', ''https://ex.com/b2b2b2b2b2b2b2b2b2b2b2b2b2b2b2b2'')],
          res_body = None\<rparr>"
    unfolding sample_fetch
    by (simp add: route_defs case_slug_map_def page_A_def page_b_def)
  have h: "fst (fst (fetchAndApply (sample_platform (raw_config (Some sample_map))) Map.empty
                 (sample_request ''ex.com'' ''OPTIONS'' (''/'' @ page_A) [])))
       = \<lparr>status = 405, res_headers = [(''Allow'', ''GET, HEAD, POST, PUT, OPTIONS'')],
          res_body = None\<rparr>"
    unfolding sample_fetch
    by (simp add: route_defs handleCorsPreflightRequest_def headers_get_Nil truthy_def)
  from a sample_pattern(1) sample_case_variant b c d e f g h show ?thesis by simp
qed


section \<open>The sitemap of the example configuration\<close>

lemma slugs_sample:
  "slugs (processConfigurationObject (raw_config (Some sample_map)\<lparr>MY_DOMAIN := d\<rparr>))
     = [[], ''about'']"
  by (simp add: process_defs sample_map_def)

text \<open>
  The theorem at the example configuration: the document holds the two locations of the
  specification's scenario.
\<close>

theorem sitemap_entries_witness:
  \<open>res_body (generateSitemapResponse
               (processConfigurationObject (raw_config (Some sample_map)\<lparr>MY_DOMAIN := ''ex.com''\<rparr>)))
     = Some (''<?xml version="1.0" encoding="UTF-8"?>'' @ newline
       @ ''<urlset xmlns="http://www.sitemaps.org/schemas/sitemap/0.9">'' @ newline
       @ ''<url><loc>https://ex.com/</loc><changefreq>weekly</changefreq><priority>0.8</priority></url>''
       @ newline
       @ ''<url><loc>https://ex.com/about</loc><changefreq>weekly</changefreq><priority>0.8</priority></url>''
       @ newline @ ''</urlset>'')\<close>
  using sitemap_entries
    [of "processConfigurationObject (raw_config (Some sample_map)\<lparr>MY_DOMAIN := ''ex.com''\<rparr>)"]
  by (simp add: sample_frame slugs_sample sitemap_head_def sitemap_tail_def)

end
